theory Spec2Isabelle
  imports Main "HOL-Library.Word"
begin

section \<open>CSI messages\<close>

text \<open>
  The request and reply messages of package \<open>csi\<close> that the interceptor and the mock
  service read and build. \<open>CapacityRange.RequiredBytes\<close>, \<open>CapacityRange.LimitBytes\<close>
  and \<open>VolumeInfo.CapacityBytes\<close> are \<open>uint64\<close>; \<open>ListVolumesRequest.MaxEntries\<close> is
  \<open>uint32\<close>. A Go \<open>map[string]string\<close> is a partial map, a possibly nil one an option
  of it. A Go \<open>error\<close> value is an \<open>error option\<close>, \<open>None\<close> for nil.
\<close>

type_synonym uint64 = "64 word"
type_synonym uint32 = "32 word"
type_synonym error = string

record VolumeInfo =
  CapacityBytes :: uint64
  VolumeInfo_Id :: string
  Attributes :: "string \<rightharpoonup> string"

record CapacityRange =
  RequiredBytes :: uint64
  LimitBytes :: uint64

datatype Request =
    ControllerPublishVolumeRequest (VolumeId: string) (NodeId: string)
  | ControllerUnpublishVolumeRequest (VolumeId: string) (NodeId: string)
  | CreateVolumeRequest (Name: string) (CapacityRange: "CapacityRange option")
  | DeleteVolumeRequest (VolumeId: string)
  | NodePublishVolumeRequest (VolumeId: string)
      (PublishVolumeInfo: "(string \<rightharpoonup> string) option") (TargetPath: string)
  | NodeUnpublishVolumeRequest (VolumeId: string) (TargetPath: string)
  | ListVolumesRequest (MaxEntries: uint32) (StartingToken: string)

text \<open>
  Every RPC has its own enumeration of error codes in package \<open>csi\<close>; the code compares a
  code only with a constant of the same enumeration, so one type serves for all of them.
\<close>

datatype ErrorCode =
    OPERATION_PENDING_FOR_VOLUME
  | VOLUME_DOES_NOT_EXIST
  | UNDEFINED
  | OtherErrorCode nat

datatype RpcError = RpcError (ErrorCode: ErrorCode) (ErrorDescription: string)

text \<open>
  \<open>csi.Error.Value\<close> is a oneof: unset, a general error, or the error of one RPC, whose
  inner pointer may be nil.
\<close>

datatype ErrorValue =
    NoValue
  | GeneralError nat string
  | ControllerPublishVolumeError "RpcError option"
  | ControllerUnpublishVolumeError "RpcError option"
  | CreateVolumeError "RpcError option"
  | DeleteVolumeError "RpcError option"
  | NodePublishVolumeError "RpcError option"
  | NodeUnpublishVolumeError "RpcError option"

text \<open>
  The \<open>Reply\<close> oneof of a response: unset, a result, or an error wrapper around a
  \<open>*csi.Error\<close> (\<open>None\<close> when that pointer is nil). A nil pointer of a response type
  behaves as a response with no reply, the generated getters being nil-safe.
\<close>

datatype 'r Reply = NoReply | Reply_Result 'r | Reply_Error "ErrorValue option"

fun GetError :: "'r Reply \<Rightarrow> ErrorValue option" where
  "GetError (Reply_Error e) = e"
| "GetError _ = None"

datatype Response =
    ControllerPublishVolumeResponse "(string \<rightharpoonup> string) Reply"
  | ControllerUnpublishVolumeResponse "unit Reply"
  | CreateVolumeResponse "VolumeInfo Reply"
  | DeleteVolumeResponse "unit Reply"
  | NodePublishVolumeResponse "unit Reply"
  | NodeUnpublishVolumeResponse "unit Reply"
  | ListVolumesResponse "(VolumeInfo list \<times> string) Reply"

text \<open>
  \<open>res.(*csi.XResponse).GetError()\<close> on a value \<open>res\<close> of type \<open>interface{}\<close>: the type
  assertion panics (outer \<open>None\<close>) when \<open>res\<close> is nil or holds another type.
\<close>

fun ControllerPublishVolumeResponse_GetError :: "Response option \<Rightarrow> ErrorValue option option" where
  "ControllerPublishVolumeResponse_GetError (Some (ControllerPublishVolumeResponse r)) = Some (GetError r)"
| "ControllerPublishVolumeResponse_GetError _ = None"

fun ControllerUnpublishVolumeResponse_GetError :: "Response option \<Rightarrow> ErrorValue option option" where
  "ControllerUnpublishVolumeResponse_GetError (Some (ControllerUnpublishVolumeResponse r)) = Some (GetError r)"
| "ControllerUnpublishVolumeResponse_GetError _ = None"

fun CreateVolumeResponse_GetError :: "Response option \<Rightarrow> ErrorValue option option" where
  "CreateVolumeResponse_GetError (Some (CreateVolumeResponse r)) = Some (GetError r)"
| "CreateVolumeResponse_GetError _ = None"

fun DeleteVolumeResponse_GetError :: "Response option \<Rightarrow> ErrorValue option option" where
  "DeleteVolumeResponse_GetError (Some (DeleteVolumeResponse r)) = Some (GetError r)"
| "DeleteVolumeResponse_GetError _ = None"

fun NodePublishVolumeResponse_GetError :: "Response option \<Rightarrow> ErrorValue option option" where
  "NodePublishVolumeResponse_GetError (Some (NodePublishVolumeResponse r)) = Some (GetError r)"
| "NodePublishVolumeResponse_GetError _ = None"

fun NodeUnpublishVolumeResponse_GetError :: "Response option \<Rightarrow> ErrorValue option option" where
  "NodeUnpublishVolumeResponse_GetError (Some (NodeUnpublishVolumeResponse r)) = Some (GetError r)"
| "NodeUnpublishVolumeResponse_GetError _ = None"

text \<open>
  Modelled from the spec: the constructors \<open>ErrCreateVolume\<close>, \<open>ErrDeleteVolume\<close>,
  \<open>ErrControllerPublishVolume\<close>, \<open>ErrControllerUnpublishVolume\<close>, \<open>ErrNodePublishVolume\<close>,
  \<open>ErrNodeUnpublishVolume\<close> and \<open>ErrListVolumes\<close> are declared outside the files at hand.
  The spec has each return "the RPC's own" reply "carrying an error-variant reply": the
  response of the RPC whose reply is the error variant, holding the RPC's error with the
  given code and description (a general error for \<open>ErrListVolumes\<close>, which takes a bare
  number).
\<close>

definition ErrControllerPublishVolume :: "ErrorCode \<Rightarrow> string \<Rightarrow> Response" where
  "ErrControllerPublishVolume code msg =
     ControllerPublishVolumeResponse
       (Reply_Error (Some (ControllerPublishVolumeError (Some (RpcError code msg)))))"

definition ErrControllerUnpublishVolume :: "ErrorCode \<Rightarrow> string \<Rightarrow> Response" where
  "ErrControllerUnpublishVolume code msg =
     ControllerUnpublishVolumeResponse
       (Reply_Error (Some (ControllerUnpublishVolumeError (Some (RpcError code msg)))))"

definition ErrCreateVolume :: "ErrorCode \<Rightarrow> string \<Rightarrow> Response" where
  "ErrCreateVolume code msg =
     CreateVolumeResponse (Reply_Error (Some (CreateVolumeError (Some (RpcError code msg)))))"

definition ErrDeleteVolume :: "ErrorCode \<Rightarrow> string \<Rightarrow> Response" where
  "ErrDeleteVolume code msg =
     DeleteVolumeResponse (Reply_Error (Some (DeleteVolumeError (Some (RpcError code msg)))))"

definition ErrNodePublishVolume :: "ErrorCode \<Rightarrow> string \<Rightarrow> Response" where
  "ErrNodePublishVolume code msg =
     NodePublishVolumeResponse
       (Reply_Error (Some (NodePublishVolumeError (Some (RpcError code msg)))))"

definition ErrNodeUnpublishVolume :: "ErrorCode \<Rightarrow> string \<Rightarrow> Response" where
  "ErrNodeUnpublishVolume code msg =
     NodeUnpublishVolumeResponse
       (Reply_Error (Some (NodeUnpublishVolumeError (Some (RpcError code msg)))))"

definition ErrListVolumes :: "nat \<Rightarrow> string \<Rightarrow> Response" where
  "ErrListVolumes code msg = ListVolumesResponse (Reply_Error (Some (GeneralError code msg)))"

section \<open>The idempotency interceptor (interceptors\_server\_idemp.go)\<close>

subsection \<open>State\<close>

text \<open>
  Modelled from the spec: \<open>MutexWithTryLock\<close> is declared outside the files at hand. The
  spec's contract is that \<open>try_lock(timeout)\<close> "succeeds immediately if uncontended;
  otherwise waits up to timeout and reports success or timeout". One call is modelled at
  a time, so no holder releases a lock while the call waits: a lock found held stays held
  and the attempt times out, whatever the timeout. \<open>locked\<close> is the state of the mutex.
\<close>

record volLockInfo =
  locked :: bool
  methodInErr :: "string set"

definition TryLock :: "volLockInfo \<Rightarrow> int \<Rightarrow> bool \<times> volLockInfo" where
  "TryLock l t = (if locked l then (False, l) else (True, l\<lparr>locked := True\<rparr>))"

definition Unlock :: "volLockInfo \<Rightarrow> volLockInfo" where
  "Unlock l = l\<lparr>locked := False\<rparr>"

record idempIntercOpts =
  timeout :: int
  requireVolume :: bool

text \<open>
  The provider and the downstream handler are outside the interceptor. They act on a
  state \<open>'w\<close> of their own (the storage back end and whatever else they see), which a
  call may read and change. Go returns a value and an error side by side, and so do
  they.
\<close>

record 'w IdempotencyProvider =
  GetVolumeID :: "string \<Rightarrow> 'w \<Rightarrow> (string \<times> error option) \<times> 'w"
  GetVolumeInfo :: "string \<Rightarrow> string \<Rightarrow> 'w \<Rightarrow> (VolumeInfo option \<times> error option) \<times> 'w"
  IsControllerPublished ::
    "string \<Rightarrow> string \<Rightarrow> 'w \<Rightarrow> ((string \<rightharpoonup> string) option \<times> error option) \<times> 'w"
  IsNodePublished ::
    "string \<Rightarrow> (string \<rightharpoonup> string) option \<Rightarrow> string \<Rightarrow> 'w \<Rightarrow> (bool \<times> error option) \<times> 'w"

type_synonym 'w UnaryHandler = "Request \<Rightarrow> 'w \<Rightarrow> (Response option \<times> error option) \<times> 'w"

datatype Event =
    Call_GetVolumeInfo string string
  | Call_IsControllerPublished string string
  | Call_IsNodePublished string "(string \<rightharpoonup> string) option" string
  | Call_handler Request

text \<open>
  The struct \<open>idempotencyInterceptor\<close> (its field \<open>p\<close> is \<open>provider\<close> here, and the two
  table mutexes are left out: one call runs at a time), together with the state \<open>world\<close>
  of the provider and the handler and the list \<open>calls\<close> of the calls made to them, oldest
  first. \<open>locksAtCall\<close> holds, for each of these calls, the two lock tables as they are
  when the call is made: the provider and the handler do not see them, a request served
  meanwhile would.
\<close>

record 'w idempotencyInterceptor =
  provider :: "'w IdempotencyProvider"
  volIDLocks :: "string \<rightharpoonup> volLockInfo"
  volNameLocks :: "string \<rightharpoonup> volLockInfo"
  opts :: idempIntercOpts
  world :: 'w
  calls :: "Event list"
  locksAtCall :: "((string \<rightharpoonup> volLockInfo) \<times> (string \<rightharpoonup> volLockInfo)) list"

type_synonym 'w ret = "(Response option \<times> error option) \<times> 'w idempotencyInterceptor"

definition newVolLockInfo :: volLockInfo where
  "newVolLockInfo = \<lparr>locked = False, methodInErr = {}\<rparr>"

definition lockWithID :: "'w idempotencyInterceptor \<Rightarrow> string \<Rightarrow> 'w idempotencyInterceptor" where
  "lockWithID i vid =
     (case volIDLocks i vid of
        None \<Rightarrow> i\<lparr>volIDLocks := (volIDLocks i)(vid \<mapsto> newVolLockInfo)\<rparr>
      | Some lock \<Rightarrow> i)"

definition lockWithName :: "'w idempotencyInterceptor \<Rightarrow> string \<Rightarrow> 'w idempotencyInterceptor" where
  "lockWithName i name =
     (case volNameLocks i name of
        None \<Rightarrow> i\<lparr>volNameLocks := (volNameLocks i)(name \<mapsto> newVolLockInfo)\<rparr>
      | Some lock \<Rightarrow> i)"

text \<open>
  \<open>lockWithID\<close> and \<open>lockWithName\<close> return a pointer to the record stored under the key;
  records are never removed or replaced, so the pointer is the key. \<open>idLock\<close> and
  \<open>nameLock\<close> read through it (the key is present once the record was fetched) and
  \<open>setIDLock\<close> and \<open>setNameLock\<close> write through it.
\<close>

definition idLock :: "'w idempotencyInterceptor \<Rightarrow> string \<Rightarrow> volLockInfo" where
  "idLock i vid = (case volIDLocks i vid of Some lock \<Rightarrow> lock | None \<Rightarrow> newVolLockInfo)"

definition nameLock :: "'w idempotencyInterceptor \<Rightarrow> string \<Rightarrow> volLockInfo" where
  "nameLock i name = (case volNameLocks i name of Some lock \<Rightarrow> lock | None \<Rightarrow> newVolLockInfo)"

definition setIDLock ::
  "'w idempotencyInterceptor \<Rightarrow> string \<Rightarrow> volLockInfo \<Rightarrow> 'w idempotencyInterceptor" where
  "setIDLock i vid lock = i\<lparr>volIDLocks := (volIDLocks i)(vid \<mapsto> lock)\<rparr>"

definition setNameLock ::
  "'w idempotencyInterceptor \<Rightarrow> string \<Rightarrow> volLockInfo \<Rightarrow> 'w idempotencyInterceptor" where
  "setNameLock i name lock = i\<lparr>volNameLocks := (volNameLocks i)(name \<mapsto> lock)\<rparr>"

subsection \<open>Calls to the provider and to the handler\<close>

text \<open>
  A call leaves the state \<open>w\<close> of the provider and the handler, and is added to the
  trace with the lock tables of the moment.
\<close>

definition noteCall :: "'w idempotencyInterceptor \<Rightarrow> 'w \<Rightarrow> Event \<Rightarrow> 'w idempotencyInterceptor" where
  "noteCall i w ev =
     i\<lparr>world := w, calls := calls i @ [ev],
       locksAtCall := locksAtCall i @ [(volIDLocks i, volNameLocks i)]\<rparr>"

definition call_GetVolumeInfo ::
  "'w idempotencyInterceptor \<Rightarrow> string \<Rightarrow> string
    \<Rightarrow> (VolumeInfo option \<times> error option) \<times> 'w idempotencyInterceptor" where
  "call_GetVolumeInfo i vid name =
     (case GetVolumeInfo (provider i) vid name (world i) of
        (r, w) \<Rightarrow> (r, noteCall i w (Call_GetVolumeInfo vid name)))"

definition call_IsControllerPublished ::
  "'w idempotencyInterceptor \<Rightarrow> string \<Rightarrow> string
    \<Rightarrow> ((string \<rightharpoonup> string) option \<times> error option) \<times> 'w idempotencyInterceptor" where
  "call_IsControllerPublished i volumeID nodeID =
     (case IsControllerPublished (provider i) volumeID nodeID (world i) of
        (r, w) \<Rightarrow> (r, noteCall i w (Call_IsControllerPublished volumeID nodeID)))"

definition call_IsNodePublished ::
  "'w idempotencyInterceptor \<Rightarrow> string \<Rightarrow> (string \<rightharpoonup> string) option \<Rightarrow> string
    \<Rightarrow> (bool \<times> error option) \<times> 'w idempotencyInterceptor" where
  "call_IsNodePublished i vid pubVolInfo targetPath =
     (case IsNodePublished (provider i) vid pubVolInfo targetPath (world i) of
        (r, w) \<Rightarrow> (r, noteCall i w (Call_IsNodePublished vid pubVolInfo targetPath)))"

definition call_handler :: "'w UnaryHandler \<Rightarrow> Request \<Rightarrow> 'w idempotencyInterceptor \<Rightarrow> 'w ret" where
  "call_handler handler req i =
     (case handler req (world i) of
        (r, w) \<Rightarrow> (r, noteCall i w (Call_handler req)))"

subsection \<open>The deferred functions\<close>

text \<open>
  The deferred function of lines 182-189, repeated at 252-259, 380-387, 450-457, 526-533
  and 594-601 with the response type of its RPC. \<open>gerr\<close> is what
  \<open>res.(*csi.XResponse).GetError()\<close> gives; Go evaluates it only when \<open>resErr\<close> is nil.
  The result is the lock record after the function, or \<open>None\<close> when it panics.
\<close>

definition deferMethodInErr ::
  "string \<Rightarrow> error option \<Rightarrow> ErrorValue option option \<Rightarrow> volLockInfo \<Rightarrow> volLockInfo option" where
  "deferMethodInErr fullMethod resErr gerr lock =
     (if resErr \<noteq> None then Some (lock\<lparr>methodInErr := insert fullMethod (methodInErr lock)\<rparr>)
      else (case gerr of
              None \<Rightarrow> None
            | Some e \<Rightarrow>
                if e \<noteq> None then Some (lock\<lparr>methodInErr := insert fullMethod (methodInErr lock)\<rparr>)
                else if fullMethod \<in> methodInErr lock
                  then Some (lock\<lparr>methodInErr := methodInErr lock - {fullMethod}\<rparr>)
                  else Some lock))"

text \<open>
  Lines 328-335: inside the error branch of the deferred function of \<open>createVolume\<close>'s
  name lock. \<open>terr := res.(*csi.CreateVolumeResponse).GetError()\<close> panics when \<open>res\<close> is
  not a \<open>*csi.CreateVolumeResponse\<close>, and \<open>terr.Value\<close> panics when \<open>terr\<close> is nil.
\<close>

definition createVolume_markNameInErr ::
  "string \<Rightarrow> ErrorValue option option \<Rightarrow> volLockInfo \<Rightarrow> volLockInfo option" where
  "createVolume_markNameInErr fullMethod gerr lock =
     (case gerr of
        None \<Rightarrow> None
      | Some None \<Rightarrow> None
      | Some (Some (CreateVolumeError (Some e))) \<Rightarrow>
          if ErrorCode e = OPERATION_PENDING_FOR_VOLUME then Some lock
          else Some (lock\<lparr>methodInErr := insert fullMethod (methodInErr lock)\<rparr>)
      | Some (Some v) \<Rightarrow> Some (lock\<lparr>methodInErr := insert fullMethod (methodInErr lock)\<rparr>))"

text \<open>Lines 322-339: the deferred function of \<open>createVolume\<close>'s name lock.\<close>

definition createVolume_deferName ::
  "string \<Rightarrow> error option \<Rightarrow> ErrorValue option option \<Rightarrow> volLockInfo \<Rightarrow> volLockInfo option" where
  "createVolume_deferName fullMethod resErr gerr lock =
     (if resErr \<noteq> None then createVolume_markNameInErr fullMethod gerr lock
      else (case gerr of
              None \<Rightarrow> None
            | Some e \<Rightarrow>
                if e \<noteq> None then createVolume_markNameInErr fullMethod gerr lock
                else if fullMethod \<in> methodInErr lock
                  then Some (lock\<lparr>methodInErr := methodInErr lock - {fullMethod}\<rparr>)
                  else Some lock))"

subsection \<open>The procedures\<close>

text \<open>
  What a procedure of the interceptor does: it returns \<open>(res, resErr)\<close>, or a deferred
  function panics and the procedure does not return.
\<close>

datatype Outcome = Return "Response option" "error option" | Panic

text \<open>
  The skeleton that the five procedures keyed by volume id share, and that
  \<open>createVolume\<close> repeats for its id lock (lines 366-388): fetch the lock record, try to
  lock it and return \<open>pending\<close> with a nil error on timeout; otherwise run \<open>body\<close>, then the
  deferred calls in reverse order of their \<open>defer\<close> statements: first \<open>lock.Unlock()\<close>,
  then the function that updates \<open>methodInErr\<close>. The flag of the result tells whether
  that function panicked.
\<close>

definition withIDLock ::
  "'w idempotencyInterceptor \<Rightarrow> string \<Rightarrow> string \<Rightarrow> Response
    \<Rightarrow> (Response option \<Rightarrow> ErrorValue option option)
    \<Rightarrow> ('w idempotencyInterceptor \<Rightarrow> 'w ret) \<Rightarrow> bool \<times> 'w ret" where
  "withIDLock i0 vid fullMethod pending getError body =
     (let i1 = lockWithID i0 vid in
      case TryLock (idLock i1 vid) (timeout (opts i1)) of
        (False, _) \<Rightarrow> (False, (Some pending, None), i1)
      | (True, lock) \<Rightarrow>
          (case body (setIDLock i1 vid lock) of
             ((res, resErr), i2) \<Rightarrow>
               (let i3 = setIDLock i2 vid (Unlock (idLock i2 vid)) in
                case deferMethodInErr fullMethod resErr (getError res) (idLock i3 vid) of
                  None \<Rightarrow> (True, (res, resErr), i3)
                | Some lock' \<Rightarrow> (False, (res, resErr), setIDLock i3 vid lock'))))"

definition finish :: "bool \<times> 'w ret \<Rightarrow> Outcome \<times> 'w idempotencyInterceptor" where
  "finish r =
     (case r of (panicking, (res, resErr), i) \<Rightarrow>
        (if panicking then Panic else Return res resErr, i))"

text \<open>
  Lines 201-211, 271-281, 545-555 and 613-623: the check that the volume exists, made
  when \<open>requireVolume\<close> is set; \<open>rest\<close> is the code after it.
\<close>

definition checkVolumeExists ::
  "'w idempotencyInterceptor \<Rightarrow> string \<Rightarrow> Response
    \<Rightarrow> ('w idempotencyInterceptor \<Rightarrow> 'w ret) \<Rightarrow> 'w ret" where
  "checkVolumeExists i vid doesNotExist rest =
     (if requireVolume (opts i) then
        (case call_GetVolumeInfo i vid [] of
           ((volInfo, err), i1) \<Rightarrow>
             if err \<noteq> None then ((None, err), i1)
             else if volInfo = None then ((Some doesNotExist, None), i1)
             else rest i1)
      else rest i)"

text \<open>Lines 195-229.\<close>

definition controllerPublishVolume_body ::
  "Request \<Rightarrow> string \<Rightarrow> 'w UnaryHandler \<Rightarrow> 'w idempotencyInterceptor \<Rightarrow> 'w ret" where
  "controllerPublishVolume_body req fullMethod handler i =
     (if fullMethod \<in> methodInErr (idLock i (VolumeId req)) then call_handler handler req i
      else checkVolumeExists i (VolumeId req)
             (ErrControllerPublishVolume VOLUME_DOES_NOT_EXIST [])
             (\<lambda>i1. case call_IsControllerPublished i1 (VolumeId req) (NodeId req) of
                      ((pubInfo, err), i2) \<Rightarrow>
                        if err \<noteq> None then ((None, err), i2)
                        else (case pubInfo of
                                Some m \<Rightarrow>
                                  ((Some (ControllerPublishVolumeResponse (Reply_Result m)), None), i2)
                              | None \<Rightarrow> call_handler handler req i2)))"

definition controllerPublishVolume ::
  "'w idempotencyInterceptor \<Rightarrow> Request \<Rightarrow> string \<Rightarrow> 'w UnaryHandler
    \<Rightarrow> Outcome \<times> 'w idempotencyInterceptor" where
  "controllerPublishVolume i req fullMethod handler =
     finish (withIDLock i (VolumeId req) fullMethod
       (ErrControllerPublishVolume OPERATION_PENDING_FOR_VOLUME [])
       ControllerPublishVolumeResponse_GetError
       (controllerPublishVolume_body req fullMethod handler))"

text \<open>Lines 265-297.\<close>

definition controllerUnpublishVolume_body ::
  "Request \<Rightarrow> string \<Rightarrow> 'w UnaryHandler \<Rightarrow> 'w idempotencyInterceptor \<Rightarrow> 'w ret" where
  "controllerUnpublishVolume_body req fullMethod handler i =
     (if fullMethod \<in> methodInErr (idLock i (VolumeId req)) then call_handler handler req i
      else checkVolumeExists i (VolumeId req)
             (ErrControllerUnpublishVolume VOLUME_DOES_NOT_EXIST [])
             (\<lambda>i1. case call_IsControllerPublished i1 (VolumeId req) (NodeId req) of
                      ((pubInfo, err), i2) \<Rightarrow>
                        if err \<noteq> None then ((None, err), i2)
                        else if pubInfo = None
                          then ((Some (ControllerUnpublishVolumeResponse (Reply_Result ())), None), i2)
                          else call_handler handler req i2))"

definition controllerUnpublishVolume ::
  "'w idempotencyInterceptor \<Rightarrow> Request \<Rightarrow> string \<Rightarrow> 'w UnaryHandler
    \<Rightarrow> Outcome \<times> 'w idempotencyInterceptor" where
  "controllerUnpublishVolume i req fullMethod handler =
     finish (withIDLock i (VolumeId req) fullMethod
       (ErrControllerUnpublishVolume OPERATION_PENDING_FOR_VOLUME [])
       ControllerUnpublishVolumeResponse_GetError
       (controllerUnpublishVolume_body req fullMethod handler))"

text \<open>
  Lines 463-503. \<open>deleteVolume_decide\<close> is the code from line 494 on and
  \<open>deleteVolume_check\<close> the code from line 485 on, each reached with the value of
  \<open>volExists\<close>.
\<close>

definition deleteVolume_decide ::
  "bool \<Rightarrow> Request \<Rightarrow> 'w UnaryHandler \<Rightarrow> 'w idempotencyInterceptor \<Rightarrow> 'w ret" where
  "deleteVolume_decide volExists req handler i =
     (if \<not> volExists then ((Some (DeleteVolumeResponse (Reply_Result ())), None), i)
      else call_handler handler req i)"

definition deleteVolume_check ::
  "bool \<Rightarrow> Request \<Rightarrow> 'w UnaryHandler \<Rightarrow> 'w idempotencyInterceptor \<Rightarrow> 'w ret" where
  "deleteVolume_check volExists req handler i =
     (if \<not> volExists then
        (case call_GetVolumeInfo i (VolumeId req) [] of
           ((volInfo, err), i1) \<Rightarrow>
             if err \<noteq> None then ((None, err), i1)
             else deleteVolume_decide (volInfo \<noteq> None) req handler i1)
      else deleteVolume_decide volExists req handler i)"

definition deleteVolume_body ::
  "Request \<Rightarrow> string \<Rightarrow> 'w UnaryHandler \<Rightarrow> 'w idempotencyInterceptor \<Rightarrow> 'w ret" where
  "deleteVolume_body req fullMethod handler i =
     (if fullMethod \<in> methodInErr (idLock i (VolumeId req)) then call_handler handler req i
      else if requireVolume (opts i) then
        (case call_GetVolumeInfo i (VolumeId req) [] of
           ((volInfo, err), i1) \<Rightarrow>
             if err \<noteq> None then ((None, err), i1)
             else if volInfo = None
               then ((Some (ErrDeleteVolume VOLUME_DOES_NOT_EXIST []), None), i1)
               else deleteVolume_check True req handler i1)
      else deleteVolume_check False req handler i)"

definition deleteVolume ::
  "'w idempotencyInterceptor \<Rightarrow> Request \<Rightarrow> string \<Rightarrow> 'w UnaryHandler
    \<Rightarrow> Outcome \<times> 'w idempotencyInterceptor" where
  "deleteVolume i req fullMethod handler =
     finish (withIDLock i (VolumeId req) fullMethod
       (ErrDeleteVolume OPERATION_PENDING_FOR_VOLUME [])
       DeleteVolumeResponse_GetError
       (deleteVolume_body req fullMethod handler))"

text \<open>Lines 539-571.\<close>

definition nodePublishVolume_body ::
  "Request \<Rightarrow> string \<Rightarrow> 'w UnaryHandler \<Rightarrow> 'w idempotencyInterceptor \<Rightarrow> 'w ret" where
  "nodePublishVolume_body req fullMethod handler i =
     (if fullMethod \<in> methodInErr (idLock i (VolumeId req)) then call_handler handler req i
      else checkVolumeExists i (VolumeId req)
             (ErrNodePublishVolume VOLUME_DOES_NOT_EXIST [])
             (\<lambda>i1. case call_IsNodePublished i1 (VolumeId req) (PublishVolumeInfo req)
                           (TargetPath req) of
                      ((ok, err), i2) \<Rightarrow>
                        if err \<noteq> None then ((None, err), i2)
                        else if ok
                          then ((Some (NodePublishVolumeResponse (Reply_Result ())), None), i2)
                          else call_handler handler req i2))"

definition nodePublishVolume ::
  "'w idempotencyInterceptor \<Rightarrow> Request \<Rightarrow> string \<Rightarrow> 'w UnaryHandler
    \<Rightarrow> Outcome \<times> 'w idempotencyInterceptor" where
  "nodePublishVolume i req fullMethod handler =
     finish (withIDLock i (VolumeId req) fullMethod
       (ErrNodePublishVolume OPERATION_PENDING_FOR_VOLUME [])
       NodePublishVolumeResponse_GetError
       (nodePublishVolume_body req fullMethod handler))"

text \<open>Lines 607-639.\<close>

definition nodeUnpublishVolume_body ::
  "Request \<Rightarrow> string \<Rightarrow> 'w UnaryHandler \<Rightarrow> 'w idempotencyInterceptor \<Rightarrow> 'w ret" where
  "nodeUnpublishVolume_body req fullMethod handler i =
     (if fullMethod \<in> methodInErr (idLock i (VolumeId req)) then call_handler handler req i
      else checkVolumeExists i (VolumeId req)
             (ErrNodeUnpublishVolume VOLUME_DOES_NOT_EXIST [])
             (\<lambda>i1. case call_IsNodePublished i1 (VolumeId req) None (TargetPath req) of
                      ((ok, err), i2) \<Rightarrow>
                        if err \<noteq> None then ((None, err), i2)
                        else if \<not> ok
                          then ((Some (NodeUnpublishVolumeResponse (Reply_Result ())), None), i2)
                          else call_handler handler req i2))"

definition nodeUnpublishVolume ::
  "'w idempotencyInterceptor \<Rightarrow> Request \<Rightarrow> string \<Rightarrow> 'w UnaryHandler
    \<Rightarrow> Outcome \<times> 'w idempotencyInterceptor" where
  "nodeUnpublishVolume i req fullMethod handler =
     finish (withIDLock i (VolumeId req) fullMethod
       (ErrNodeUnpublishVolume OPERATION_PENDING_FOR_VOLUME [])
       NodeUnpublishVolumeResponse_GetError
       (nodeUnpublishVolume_body req fullMethod handler))"

text \<open>
  \<open>createVolume\<close>, lines 300-428. \<open>createVolume_idLocked\<close> is the code run under the id
  lock (lines 393-427), \<open>createVolume_nameLocked\<close> the code run under the name lock (lines
  345-388, with the deferred calls of the id lock), and \<open>createVolume\<close> takes the name
  lock and runs its deferred calls last: \<open>nameLock.Unlock()\<close>, then the function of lines
  322-339. A panic of the id lock's deferred function does not stop the deferred calls
  of the name lock.
\<close>

definition createVolume_idLocked ::
  "Request \<Rightarrow> VolumeInfo \<Rightarrow> string \<Rightarrow> 'w UnaryHandler \<Rightarrow> 'w idempotencyInterceptor \<Rightarrow> 'w ret" where
  "createVolume_idLocked req volInfo fullMethod handler i =
     (if fullMethod \<in> methodInErr (idLock i (VolumeInfo_Id volInfo)) then call_handler handler req i
      else (case call_GetVolumeInfo i (VolumeInfo_Id volInfo) [] of
              ((volInfo', err), i1) \<Rightarrow>
                if err \<noteq> None then ((None, err), i1)
                else (case volInfo' of
                        None \<Rightarrow> call_handler handler req i1
                      | Some v \<Rightarrow> ((Some (CreateVolumeResponse (Reply_Result v)), None), i1))))"

definition createVolume_nameLocked ::
  "Request \<Rightarrow> string \<Rightarrow> 'w UnaryHandler \<Rightarrow> 'w idempotencyInterceptor \<Rightarrow> bool \<times> 'w ret" where
  "createVolume_nameLocked req fullMethod handler i =
     (if fullMethod \<in> methodInErr (nameLock i (Name req)) then (False, call_handler handler req i)
      else (case call_GetVolumeInfo i [] (Name req) of
              ((volInfo, err), i1) \<Rightarrow>
                if err \<noteq> None then (False, (None, err), i1)
                else (case volInfo of
                        None \<Rightarrow> (False, call_handler handler req i1)
                      | Some v \<Rightarrow>
                          withIDLock i1 (VolumeInfo_Id v) fullMethod
                            (ErrCreateVolume OPERATION_PENDING_FOR_VOLUME [])
                            CreateVolumeResponse_GetError
                            (createVolume_idLocked req v fullMethod handler))))"

definition createVolume ::
  "'w idempotencyInterceptor \<Rightarrow> Request \<Rightarrow> string \<Rightarrow> 'w UnaryHandler
    \<Rightarrow> Outcome \<times> 'w idempotencyInterceptor" where
  "createVolume i0 req fullMethod handler =
     (let i1 = lockWithName i0 (Name req) in
      case TryLock (nameLock i1 (Name req)) (timeout (opts i1)) of
        (False, _) \<Rightarrow> (Return (Some (ErrCreateVolume OPERATION_PENDING_FOR_VOLUME [])) None, i1)
      | (True, lock) \<Rightarrow>
          (case createVolume_nameLocked req fullMethod handler (setNameLock i1 (Name req) lock) of
             (panicking, (res, resErr), i2) \<Rightarrow>
               (let i3 = setNameLock i2 (Name req) (Unlock (nameLock i2 (Name req))) in
                case createVolume_deferName fullMethod resErr (CreateVolumeResponse_GetError res)
                       (nameLock i3 (Name req)) of
                  None \<Rightarrow> (Panic, i3)
                | Some lock' \<Rightarrow>
                    (if panicking then Panic else Return res resErr,
                     setNameLock i3 (Name req) lock'))))"

text \<open>Lines 138-160: the dispatcher.\<close>

definition handle ::
  "'w idempotencyInterceptor \<Rightarrow> Request \<Rightarrow> string \<Rightarrow> 'w UnaryHandler
    \<Rightarrow> Outcome \<times> 'w idempotencyInterceptor" where
  "handle i req fullMethod handler =
     (case req of
        ControllerPublishVolumeRequest _ _ \<Rightarrow> controllerPublishVolume i req fullMethod handler
      | ControllerUnpublishVolumeRequest _ _ \<Rightarrow> controllerUnpublishVolume i req fullMethod handler
      | CreateVolumeRequest _ _ \<Rightarrow> createVolume i req fullMethod handler
      | DeleteVolumeRequest _ \<Rightarrow> deleteVolume i req fullMethod handler
      | NodePublishVolumeRequest _ _ _ \<Rightarrow> nodePublishVolume i req fullMethod handler
      | NodeUnpublishVolumeRequest _ _ \<Rightarrow> nodeUnpublishVolume i req fullMethod handler
      | _ \<Rightarrow> (case call_handler handler req i of ((res, resErr), i') \<Rightarrow> (Return res resErr, i')))"

section \<open>The mock CSI service (package service)\<close>

text \<open>
  The mock plug-in keeps its volumes in the slice \<open>s.vols\<close>. One call runs at a time, so
  the lock \<open>volsRWL\<close> is left out.
\<close>

record service =
  nodeID :: string
  vols :: "VolumeInfo list"

text \<open>
  Modelled from the spec: the constant \<open>gib100\<close> is declared outside the files at hand;
  the comment at its only use reads "If no capacity is specified then use 100GiB", so it
  is 100 * 2^30 bytes.
\<close>

definition gib100 :: uint64 where
  "gib100 = 107374182400"

text \<open>
  \<open>CreateVolume\<close> of the mock service. \<open>s.newVolume\<close> is declared outside the files at
  hand and is a parameter here: it is called with the request's name and the chosen
  capacity, and what it returns is the created volume.
\<close>

definition CreateVolume ::
  "(string \<Rightarrow> uint64 \<Rightarrow> VolumeInfo) \<Rightarrow> service \<Rightarrow> Request
    \<Rightarrow> (Response \<times> error option) \<times> service" where
  "CreateVolume newVolume s req =
    (let capacity = gib100;
         capacity = (case CapacityRange req of
                       None \<Rightarrow> capacity
                     | Some cr \<Rightarrow>
                         (let capacity = (if RequiredBytes cr > 0 then RequiredBytes cr else capacity);
                              capacity = (if LimitBytes cr > 0 then LimitBytes cr else capacity)
                          in capacity));
         v = newVolume (Name req) capacity
     in ((CreateVolumeResponse (Reply_Result v), None), s\<lparr>vols := vols s @ [v]\<rparr>))"

subsection \<open>ListVolumes\<close>

text \<open>
  \<open>fmt.Sprintf("%d", n)\<close> for an unsigned \<open>n\<close>: its decimal digits, most significant
  first.
\<close>

definition digitChar :: "nat \<Rightarrow> char" where
  "digitChar d = ''0123456789'' ! d"

function showNat :: "nat \<Rightarrow> string" where
  "showNat n = (if n < 10 then [digitChar n] else showNat (n div 10) @ [digitChar (n mod 10)])"
  by pat_completeness auto
termination
  by (relation "measure (\<lambda>n. n)") auto

text \<open>
  \<open>strconv.ParseUint(s, 10, bitSize)\<close> of Go's library: the value of a non-empty string
  of decimal digits (no sign, no spaces) when it fits in \<open>bitSize\<close> bits, an error
  (\<open>None\<close>) otherwise.
\<close>

definition isDigit :: "char \<Rightarrow> bool" where
  "isDigit c = (48 \<le> (of_char c :: nat) \<and> (of_char c :: nat) \<le> 57)"

definition digitVal :: "char \<Rightarrow> nat" where
  "digitVal c = of_char c - 48"

definition ParseUint :: "string \<Rightarrow> nat \<Rightarrow> nat option" where
  "ParseUint s bitSize =
     (if s = [] \<or> \<not> list_all isDigit s then None
      else (let n = foldl (\<lambda>a c. 10 * a + digitVal c) 0 s
            in if n < 2 ^ bitSize then Some n else None))"

text \<open>
  The loop of lines 194-199: \<open>entries[i]\<close> is set to \<open>vols[j]\<close> for \<open>i\<close> from 0 to
  \<open>len(entries) - 1\<close>, \<open>j\<close> a \<open>uint32\<close> incremented each time. The slots are filled in
  order, so the entries set so far are a list that grows at its end. Indexing \<open>vols\<close>
  out of range panics (\<open>None\<close>). The result is the final \<open>i\<close> and the entries.
\<close>

function ListVolumes_loop ::
  "VolumeInfo list \<Rightarrow> nat \<Rightarrow> nat \<Rightarrow> uint32 \<Rightarrow> VolumeInfo list \<Rightarrow> (nat \<times> VolumeInfo list) option" where
  "ListVolumes_loop vs n i j entries =
     (if i < n then
        (if unat j < length vs
           then ListVolumes_loop vs n (Suc i) (j + 1) (entries @ [vs ! unat j])
           else None)
      else Some (i, entries))"
  by pat_completeness auto
termination
  by (relation "measure (\<lambda>(vs, n, i, j, entries). n - i)") auto

text \<open>
  \<open>ListVolumes\<close>, lines 139-214. \<open>len(vols)\<close> is converted to \<open>uint32\<close>, which keeps its
  low 32 bits. The result is \<open>None\<close> if the call panics.
\<close>

definition ListVolumes :: "service \<Rightarrow> Request \<Rightarrow> (Response \<times> error option) option" where
  "ListVolumes s req =
     (let vs = vols s;
          ulenVols = (of_nat (length vs) :: uint32);
          maxEntries = MaxEntries req
      in case (if StartingToken req \<noteq> []
               then map_option of_nat (ParseUint (StartingToken req) 32)
               else Some (0 :: uint32)) of
           None \<Rightarrow>
             Some (ErrListVolumes 0
                     (''startingToken='' @ showNat 0 @ '' !< uint32='' @ showNat 4294967295),
                   None)
         | Some startingToken \<Rightarrow>
             if startingToken > ulenVols then
               Some (ErrListVolumes 0
                       (''startingToken='' @ showNat (unat startingToken) @
                        '' > len(vols)='' @ showNat (unat ulenVols)),
                     None)
             else
               (let rem = ulenVols - startingToken;
                    maxEntries = (if maxEntries = 0 \<or> maxEntries > rem then rem else maxEntries)
                in case ListVolumes_loop vs (unat maxEntries) 0 startingToken [] of
                     None \<Rightarrow> None
                   | Some (i, entries) \<Rightarrow>
                       (let n = startingToken + of_nat i;
                            nextToken = (if n < ulenVols then showNat (unat n) else [])
                        in Some (ListVolumesResponse (Reply_Result (entries, nextToken)), None))))"

declare showNat.simps [simp del]
declare ListVolumes_loop.simps [simp del]

section \<open>Example values\<close>

text \<open>Concrete volumes, providers and handlers at which the theorems below are instantiated.\<close>

definition vol0 :: VolumeInfo where
  "vol0 = \<lparr>CapacityBytes = 1, VolumeInfo_Id = ''0'', Attributes = Map.empty\<rparr>"

text \<open>
  The interceptor once a call has fetched the lock record of a volume id and locked it:
  the state in which the code under the lock starts.
\<close>

definition acquired :: "'w idempotencyInterceptor \<Rightarrow> string \<Rightarrow> 'w idempotencyInterceptor" where
  "acquired i vid = setIDLock (lockWithID i vid) vid ((idLock i vid)\<lparr>locked := True\<rparr>)"

text \<open>The same for \<open>createVolume\<close>'s lock on a volume name.\<close>

definition acquiredName :: "'w idempotencyInterceptor \<Rightarrow> string \<Rightarrow> 'w idempotencyInterceptor" where
  "acquiredName i name = setNameLock (lockWithName i name) name ((nameLock i name)\<lparr>locked := True\<rparr>)"

text \<open>
  What \<open>createVolume\<close> makes of the result \<open>(res, resErr)\<close> of the handler it has called:
  its deferred functions (lines 322-339 and 380-387) panic when \<open>res\<close> is not a
  \<open>*csi.CreateVolumeResponse\<close>, and when \<open>resErr\<close> is not nil and the response carries
  no error; otherwise the result is returned.
\<close>

definition createVolume_delegated :: "Response option \<times> error option \<Rightarrow> Outcome" where
  "createVolume_delegated r =
     (if CreateVolumeResponse_GetError (fst r) = None \<or>
         (snd r \<noteq> None \<and> CreateVolumeResponse_GetError (fst r) = Some None)
      then Panic else Return (fst r) (snd r))"

text \<open>
  Whether the lock of a volume id, or of a volume name, is held in a pair of lock tables
  of \<open>locksAtCall\<close>.
\<close>

definition heldID ::
  "(string \<rightharpoonup> volLockInfo) \<times> (string \<rightharpoonup> volLockInfo) \<Rightarrow> string \<Rightarrow> bool" where
  "heldID t k = (case fst t k of Some lock \<Rightarrow> locked lock | None \<Rightarrow> False)"

definition heldName ::
  "(string \<rightharpoonup> volLockInfo) \<times> (string \<rightharpoonup> volLockInfo) \<Rightarrow> string \<Rightarrow> bool" where
  "heldName t k = (case snd t k of Some lock \<Rightarrow> locked lock | None \<Rightarrow> False)"

text \<open>The embedded error of a reply, whatever its RPC.\<close>

fun replyError :: "Response \<Rightarrow> ErrorValue option" where
  "replyError (ControllerPublishVolumeResponse r) = GetError r"
| "replyError (ControllerUnpublishVolumeResponse r) = GetError r"
| "replyError (CreateVolumeResponse r) = GetError r"
| "replyError (DeleteVolumeResponse r) = GetError r"
| "replyError (NodePublishVolumeResponse r) = GetError r"
| "replyError (NodeUnpublishVolumeResponse r) = GetError r"
| "replyError (ListVolumesResponse r) = GetError r"

text \<open>Counting the calls of a trace.\<close>

fun isHandlerCall :: "Event \<Rightarrow> bool" where
  "isHandlerCall (Call_handler req) = True"
| "isHandlerCall _ = False"

fun isGetVolumeInfoCall :: "Event \<Rightarrow> bool" where
  "isGetVolumeInfoCall (Call_GetVolumeInfo vid name) = True"
| "isGetVolumeInfoCall _ = False"

text \<open>
  A small back end: at most one volume, its controller publication and whether it is
  mounted. \<open>exProvider\<close> reports it as it is, \<open>failingProvider\<close> fails every volume
  lookup, and \<open>vanishingProvider\<close> sees the volume deleted by someone else right after
  each lookup.
\<close>

record backend =
  volume :: "VolumeInfo option"
  published :: "(string \<rightharpoonup> string) option"
  mounted :: bool

definition vol1 :: VolumeInfo where
  "vol1 = \<lparr>CapacityBytes = 1, VolumeInfo_Id = ''v1'', Attributes = Map.empty\<rparr>"

definition exProvider :: "backend IdempotencyProvider" where
  "exProvider =
     \<lparr>GetVolumeID = (\<lambda>name w. ((case volume w of None \<Rightarrow> [] | Some v \<Rightarrow> VolumeInfo_Id v, None), w)),
      GetVolumeInfo = (\<lambda>vid name w. ((volume w, None), w)),
      IsControllerPublished = (\<lambda>vid node w. ((published w, None), w)),
      IsNodePublished = (\<lambda>vid pub target w. ((mounted w, None), w))\<rparr>"

definition failingProvider :: "backend IdempotencyProvider" where
  "failingProvider = exProvider\<lparr>GetVolumeInfo := (\<lambda>vid name w. ((None, Some ''unavailable''), w))\<rparr>"

definition vanishingProvider :: "backend IdempotencyProvider" where
  "vanishingProvider = exProvider\<lparr>GetVolumeInfo := (\<lambda>vid name w. ((volume w, None), w\<lparr>volume := None\<rparr>))\<rparr>"

definition exHandler :: "backend UnaryHandler" where
  "exHandler req w =
     (case req of
        ControllerPublishVolumeRequest vid node \<Rightarrow>
          ((Some (ControllerPublishVolumeResponse (Reply_Result [''device'' \<mapsto> ''/dev/mock''])), None),
           w\<lparr>published := Some [''device'' \<mapsto> ''/dev/mock'']\<rparr>)
      | CreateVolumeRequest name cr \<Rightarrow>
          ((Some (CreateVolumeResponse (Reply_Result vol1)), None), w\<lparr>volume := Some vol1\<rparr>)
      | DeleteVolumeRequest vid \<Rightarrow>
          ((Some (DeleteVolumeResponse (Reply_Result ())), None), w\<lparr>volume := None\<rparr>)
      | _ \<Rightarrow> ((None, Some ''not implemented''), w))"

definition failingHandler :: "backend UnaryHandler" where
  "failingHandler req w = ((None, Some ''storage failure''), w)"

definition pendingHandler :: "backend UnaryHandler" where
  "pendingHandler req w = ((Some (ErrCreateVolume OPERATION_PENDING_FOR_VOLUME []), None), w)"

definition exInterceptor ::
  "backend IdempotencyProvider \<Rightarrow> bool \<Rightarrow> backend \<Rightarrow> backend idempotencyInterceptor" where
  "exInterceptor prov req_vol w =
     \<lparr>provider = prov, volIDLocks = Map.empty, volNameLocks = Map.empty,
      opts = \<lparr>timeout = 0, requireVolume = req_vol\<rparr>, world = w, calls = [],
      locksAtCall = []\<rparr>"

definition emptyBackend :: backend where
  "emptyBackend = \<lparr>volume = None, published = None, mounted = False\<rparr>"

definition heldLock :: volLockInfo where
  "heldLock = \<lparr>locked = True, methodInErr = {}\<rparr>"

section \<open>Properties of the mock service\<close>

text \<open>
  Claim C9. \<open>CreateVolume\<close> of the mock service creates the volume with a capacity of
  100 GiB when the request has no capacity range or both fields of the range are zero,
  of \<open>RequiredBytes\<close> when that is positive and \<open>LimitBytes\<close> is zero, and of
  \<open>LimitBytes\<close> whenever that is positive, whatever \<open>RequiredBytes\<close> is; the reply
  carries the new volume with a nil error, and the volume is appended to \<open>s.vols\<close>.
\<close>

theorem CreateVolume_capacity:
  "((CapacityRange req = None \<or>
      (\<exists>cr. CapacityRange req = Some cr \<and> RequiredBytes cr = 0 \<and> LimitBytes cr = 0)) \<longrightarrow>
     CreateVolume newVolume s req =
       ((CreateVolumeResponse (Reply_Result (newVolume (Name req) (100 * 2 ^ 30))), None),
        s\<lparr>vols := vols s @ [newVolume (Name req) (100 * 2 ^ 30)]\<rparr>)) \<and>
   (\<forall>cr. CapacityRange req = Some cr \<and> RequiredBytes cr > 0 \<and> LimitBytes cr = 0 \<longrightarrow>
     CreateVolume newVolume s req =
       ((CreateVolumeResponse (Reply_Result (newVolume (Name req) (RequiredBytes cr))), None),
        s\<lparr>vols := vols s @ [newVolume (Name req) (RequiredBytes cr)]\<rparr>)) \<and>
   (\<forall>cr. CapacityRange req = Some cr \<and> LimitBytes cr > 0 \<longrightarrow>
     CreateVolume newVolume s req =
       ((CreateVolumeResponse (Reply_Result (newVolume (Name req) (LimitBytes cr))), None),
        s\<lparr>vols := vols s @ [newVolume (Name req) (LimitBytes cr)]\<rparr>))"
  by (auto simp: CreateVolume_def gib100_def Let_def)

theorem CreateVolume_capacity_witness:
  "CreateVolume (\<lambda>name c. \<lparr>CapacityBytes = c, VolumeInfo_Id = ''4'', Attributes = [''name'' \<mapsto> name]\<rparr>)
     \<lparr>nodeID = ''n'', vols = []\<rparr>
     (CreateVolumeRequest ''Test Volume'' (Some \<lparr>RequiredBytes = 10740000000, LimitBytes = 107400000000\<rparr>)) =
   ((CreateVolumeResponse (Reply_Result
       \<lparr>CapacityBytes = 107400000000, VolumeInfo_Id = ''4'', Attributes = [''name'' \<mapsto> ''Test Volume'']\<rparr>), None),
    \<lparr>nodeID = ''n'', vols =
       [\<lparr>CapacityBytes = 107400000000, VolumeInfo_Id = ''4'', Attributes = [''name'' \<mapsto> ''Test Volume'']\<rparr>]\<rparr>) \<and>
   CreateVolume (\<lambda>name c. \<lparr>CapacityBytes = c, VolumeInfo_Id = ''4'', Attributes = [''name'' \<mapsto> name]\<rparr>)
     \<lparr>nodeID = ''n'', vols = []\<rparr>
     (CreateVolumeRequest ''a'' (Some \<lparr>RequiredBytes = 5, LimitBytes = 0\<rparr>)) =
   ((CreateVolumeResponse (Reply_Result
       \<lparr>CapacityBytes = 5, VolumeInfo_Id = ''4'', Attributes = [''name'' \<mapsto> ''a'']\<rparr>), None),
    \<lparr>nodeID = ''n'', vols =
       [\<lparr>CapacityBytes = 5, VolumeInfo_Id = ''4'', Attributes = [''name'' \<mapsto> ''a'']\<rparr>]\<rparr>) \<and>
   CreateVolume (\<lambda>name c. \<lparr>CapacityBytes = c, VolumeInfo_Id = ''4'', Attributes = [''name'' \<mapsto> name]\<rparr>)
     \<lparr>nodeID = ''n'', vols = []\<rparr>
     (CreateVolumeRequest ''a'' None) =
   ((CreateVolumeResponse (Reply_Result
       \<lparr>CapacityBytes = 107374182400, VolumeInfo_Id = ''4'', Attributes = [''name'' \<mapsto> ''a'']\<rparr>), None),
    \<lparr>nodeID = ''n'', vols =
       [\<lparr>CapacityBytes = 107374182400, VolumeInfo_Id = ''4'', Attributes = [''name'' \<mapsto> ''a'']\<rparr>]\<rparr>)"
  using
    CreateVolume_capacity [of "CreateVolumeRequest ''Test Volume'' (Some \<lparr>RequiredBytes = 10740000000, LimitBytes = 107400000000\<rparr>)"
      "\<lambda>name c. \<lparr>CapacityBytes = c, VolumeInfo_Id = ''4'', Attributes = [''name'' \<mapsto> name]\<rparr>"
      "\<lparr>nodeID = ''n'', vols = []\<rparr>"]
    CreateVolume_capacity [of "CreateVolumeRequest ''a'' (Some \<lparr>RequiredBytes = 5, LimitBytes = 0\<rparr>)"
      "\<lambda>name c. \<lparr>CapacityBytes = c, VolumeInfo_Id = ''4'', Attributes = [''name'' \<mapsto> name]\<rparr>"
      "\<lparr>nodeID = ''n'', vols = []\<rparr>"]
    CreateVolume_capacity [of "CreateVolumeRequest ''a'' None"
      "\<lambda>name c. \<lparr>CapacityBytes = c, VolumeInfo_Id = ''4'', Attributes = [''name'' \<mapsto> name]\<rparr>"
      "\<lparr>nodeID = ''n'', vols = []\<rparr>"]
  by simp


subsection \<open>ListVolumes\<close>

lemma showNat_nonempty: "showNat n \<noteq> []"
  by (subst showNat.simps) simp

lemma ListVolumes_loop_run:
  "unat j + (n - i) \<le> length vs \<Longrightarrow> length vs < 2 ^ 32 \<Longrightarrow> i \<le> n \<Longrightarrow>
   ListVolumes_loop vs n i j entries = Some (n, entries @ take (n - i) (drop (unat j) vs))"
proof (induction vs n i j entries rule: ListVolumes_loop.induct)
  case (1 vs n i j entries)
  show ?case
  proof (cases "i < n")
    case False
    with "1.prems" show ?thesis by (subst ListVolumes_loop.simps) simp
  next
    case True
    with "1.prems" have lt: "unat j < length vs" by linarith
    have "unat j + 1 < 2 ^ 32" using lt "1.prems"(2) by linarith
    then have uj: "unat (j + 1) = unat j + 1"
      by (simp add: unat_word_ariths)
    have ih: "ListVolumes_loop vs n (Suc i) (j + 1) (entries @ [vs ! unat j]) =
      Some (n, (entries @ [vs ! unat j]) @ take (n - Suc i) (drop (unat (j + 1)) vs))"
      using "1.IH" [OF True lt] "1.prems" True uj by simp
    have split: "take (n - i) (drop (unat j) vs) = vs ! unat j # take (n - Suc i) (drop (Suc (unat j)) vs)"
      using True lt by (metis Cons_nth_drop_Suc Suc_diff_Suc take_Suc_Cons)
    show ?thesis
      using True lt ih uj split by (subst ListVolumes_loop.simps) simp
  qed
qed

lemma ParseUint_bound: "ParseUint s b = Some t \<Longrightarrow> t < 2 ^ b"
  by (auto simp: ParseUint_def Let_def split: if_splits)

lemma unat_of_nat32: "n < 2 ^ 32 \<Longrightarrow> unat (of_nat n :: uint32) = n"
  by (simp add: unat_of_nat)

lemma ListVolumes_result:
  assumes n: "length (vols s) < 2 ^ 32"
    and t: "t < 2 ^ 32"
    and tok: "(if StartingToken req \<noteq> [] then map_option of_nat (ParseUint (StartingToken req) 32)
               else Some (0 :: uint32)) = Some (of_nat t)"
    and le: "t \<le> length (vols s)"
    and k: "k = (if MaxEntries req = 0 then length (vols s) - t
                 else min (unat (MaxEntries req)) (length (vols s) - t))"
  shows "ListVolumes s req =
           Some (ListVolumesResponse (Reply_Result
                   (take k (drop t (vols s)),
                    if t + k < length (vols s) then showNat (t + k) else [])), None)"
proof -
  let ?vs = "vols s"
  let ?u = "of_nat (length ?vs) :: uint32"
  let ?st = "of_nat t :: uint32"
  have un: "unat ?u = length ?vs" using n by (rule unat_of_nat32)
  have ut: "unat ?st = t" using t by (rule unat_of_nat32)
  have nogt: "\<not> ?st > ?u" using le un ut by (simp add: word_less_nat_alt)
  have stle: "?st \<le> ?u" using le un ut by (simp add: word_le_nat_alt)
  have urem: "unat (?u - ?st) = length ?vs - t"
    using stle un ut by (simp add: unat_sub)
  let ?m = "if MaxEntries req = 0 \<or> MaxEntries req > ?u - ?st then ?u - ?st else MaxEntries req"
  have um: "unat ?m = k"
    using urem k by (auto simp: word_less_nat_alt unat_eq_zero min_def)
  have kle: "k \<le> length ?vs - t" using k by (simp add: min_def)
  have loop: "ListVolumes_loop ?vs (unat ?m) 0 ?st [] = Some (k, take k (drop t ?vs))"
    using ListVolumes_loop_run [of ?st "unat ?m" 0 ?vs "[]"] um ut kle le n by simp
  have tk: "t + k < 2 ^ 32" using kle le n by linarith
  have usum: "unat (?st + of_nat k) = t + k"
    using tk ut by (simp add: unat_word_ariths unat_of_nat)
  have lt: "(?st + of_nat k < ?u) = (t + k < length ?vs)"
    using usum un by (simp add: word_less_nat_alt)
  show ?thesis
    unfolding ListVolumes_def Let_def
    using tok nogt loop lt usum by simp
qed


lemma ParseUint_1: "ParseUint ''1'' 32 = Some 1"
  by (simp add: ParseUint_def isDigit_def digitVal_def)

lemma ParseUint_x: "ParseUint ''x'' 32 = None"
  by (simp add: ParseUint_def isDigit_def digitVal_def)

lemma ParseUint_7: "ParseUint ''7'' 32 = Some 7"
  by (simp add: ParseUint_def isDigit_def digitVal_def)

lemma showNat_2: "showNat (Suc (Suc 0)) = ''2''"
  by (simp add: showNat.simps digitChar_def)

lemma ParseUint_0: "ParseUint ''0'' 32 = Some 0"
  by (simp add: ParseUint_def isDigit_def digitVal_def)

text \<open>
  Claim C10, as the code has it. A \<open>StartingToken\<close> that is not empty and that
  \<open>strconv.ParseUint\<close> rejects gives an embedded-error reply with a nil error. Otherwise
  let \<open>t\<close> be the value of the token, 0 for the empty token, and let there be fewer than
  2^32 volumes: if \<open>t\<close> exceeds the number \<open>n\<close> of volumes the reply is an embedded error
  with a nil error; if not, the reply holds \<open>n - t\<close> entries when \<open>MaxEntries\<close> is 0 and
  \<open>min(MaxEntries, n - t)\<close> otherwise, they are the volumes at indices \<open>t\<close>, \<open>t + 1\<close>, ...
  in order, and \<open>NextToken\<close> is non-empty exactly when volumes remain after them (it is
  then the decimal index of the first one). The call does not panic.
\<close>

theorem ListVolumes_pages:
  "(StartingToken req \<noteq> [] \<and> ParseUint (StartingToken req) 32 = None \<longrightarrow>
      (\<exists>msg. ListVolumes s req = Some (ErrListVolumes 0 msg, None))) \<and>
   (length (vols s) < 2 ^ 32 \<and>
    (StartingToken req = [] \<and> t = 0 \<or> ParseUint (StartingToken req) 32 = Some t) \<longrightarrow>
      (length (vols s) < t \<longrightarrow> (\<exists>msg. ListVolumes s req = Some (ErrListVolumes 0 msg, None))) \<and>
      (t \<le> length (vols s) \<longrightarrow>
        (let k = (if MaxEntries req = 0 then length (vols s) - t
                  else min (unat (MaxEntries req)) (length (vols s) - t));
             entries = take k (drop t (vols s));
             nextToken = (if t + k < length (vols s) then showNat (t + k) else [])
         in ListVolumes s req = Some (ListVolumesResponse (Reply_Result (entries, nextToken)), None) \<and>
            length entries = k \<and>
            (\<forall>i < k. entries ! i = vols s ! (t + i)) \<and>
            (nextToken \<noteq> [] \<longleftrightarrow> t + k < length (vols s)))))"
proof (intro conjI impI)
  assume "StartingToken req \<noteq> [] \<and> ParseUint (StartingToken req) 32 = None"
  then show "\<exists>msg. ListVolumes s req = Some (ErrListVolumes 0 msg, None)"
    by (simp add: ListVolumes_def) blast
next
  assume a: "length (vols s) < 2 ^ 32 \<and>
    (StartingToken req = [] \<and> t = 0 \<or> ParseUint (StartingToken req) 32 = Some t)"
  then have n: "length (vols s) < 2 ^ 32" by simp
  have ne: "ParseUint (StartingToken req) 32 = Some t \<Longrightarrow> StartingToken req \<noteq> []"
    by (auto simp: ParseUint_def)
  have t: "t < 2 ^ 32" using a ParseUint_bound [of "StartingToken req" 32 t] by auto
  have tok: "(if StartingToken req \<noteq> [] then map_option of_nat (ParseUint (StartingToken req) 32)
               else Some (0 :: uint32)) = Some (of_nat t)"
    using a ne by auto
  have un: "unat (of_nat (length (vols s)) :: uint32) = length (vols s)"
    using n by (rule unat_of_nat32)
  have ut: "unat (of_nat t :: uint32) = t" using t by (rule unat_of_nat32)
  {
    assume "length (vols s) < t"
    then have "(of_nat t :: uint32) > of_nat (length (vols s))"
      using un ut by (simp add: word_less_nat_alt)
    then show "\<exists>msg. ListVolumes s req = Some (ErrListVolumes 0 msg, None)"
      using tok by (simp add: ListVolumes_def) blast
  }
  {
    assume le: "t \<le> length (vols s)"
    define k where "k = (if MaxEntries req = 0 then length (vols s) - t
                  else min (unat (MaxEntries req)) (length (vols s) - t))"
    have kle: "k \<le> length (vols s) - t" by (simp add: k_def)
    have res: "ListVolumes s req =
           Some (ListVolumesResponse (Reply_Result
                   (take k (drop t (vols s)),
                    if t + k < length (vols s) then showNat (t + k) else [])), None)"
      using n t tok le k_def by (rule ListVolumes_result)
    have len: "length (take k (drop t (vols s))) = k" using kle by simp
    have nth: "\<forall>i < k. take k (drop t (vols s)) ! i = vols s ! (t + i)"
      using kle le by simp
    have nx: "((if t + k < length (vols s) then showNat (t + k) else []) \<noteq> []) =
              (t + k < length (vols s))"
      by (simp add: showNat_nonempty)
    show "let k = (if MaxEntries req = 0 then length (vols s) - t
                  else min (unat (MaxEntries req)) (length (vols s) - t));
             entries = take k (drop t (vols s));
             nextToken = (if t + k < length (vols s) then showNat (t + k) else [])
         in ListVolumes s req = Some (ListVolumesResponse (Reply_Result (entries, nextToken)), None) \<and>
            length entries = k \<and>
            (\<forall>i < k. entries ! i = vols s ! (t + i)) \<and>
            (nextToken \<noteq> [] \<longleftrightarrow> t + k < length (vols s))"
      unfolding Let_def k_def [symmetric]
      using res len nth nx by blast
  }
qed

theorem ListVolumes_pages_witness:
  "ListVolumes \<lparr>nodeID = [], vols = [vol0, vol0\<lparr>VolumeInfo_Id := ''1''\<rparr>, vol0\<lparr>VolumeInfo_Id := ''2''\<rparr>]\<rparr>
      (ListVolumesRequest 1 ''1'') =
    Some (ListVolumesResponse (Reply_Result ([vol0\<lparr>VolumeInfo_Id := ''1''\<rparr>], ''2'')), None) \<and>
   (\<exists>msg. ListVolumes \<lparr>nodeID = [], vols = [vol0]\<rparr> (ListVolumesRequest 0 ''7'') =
            Some (ErrListVolumes 0 msg, None)) \<and>
   (\<exists>msg. ListVolumes \<lparr>nodeID = [], vols = [vol0]\<rparr> (ListVolumesRequest 0 ''x'') =
            Some (ErrListVolumes 0 msg, None))"
  using
    ListVolumes_pages [of "ListVolumesRequest 1 ''1''"
      "\<lparr>nodeID = [], vols = [vol0, vol0\<lparr>VolumeInfo_Id := ''1''\<rparr>, vol0\<lparr>VolumeInfo_Id := ''2''\<rparr>]\<rparr>" 1]
    ListVolumes_pages [of "ListVolumesRequest 0 ''7''" "\<lparr>nodeID = [], vols = [vol0]\<rparr>" 7]
    ListVolumes_pages [of "ListVolumesRequest 0 ''x''" "\<lparr>nodeID = [], vols = [vol0]\<rparr>" 0]
  by (simp add: ParseUint_1 ParseUint_7 ParseUint_x showNat_2 Let_def)


text \<open>
  Claim C10 as stated fails. The empty \<open>StartingToken\<close> does not parse as a \<open>uint32\<close>, and
  the reply to it is the first page, not an error. And \<open>len(vols)\<close> is cut to 32 bits:
  with 2^32 volumes the token 0 is answered with no entry and no \<open>NextToken\<close>.
\<close>

theorem ListVolumes_pages_counterexample:
  "ParseUint [] 32 = None \<and>
   ListVolumes \<lparr>nodeID = [], vols = [vol0]\<rparr> (ListVolumesRequest 0 []) =
     Some (ListVolumesResponse (Reply_Result ([vol0], [])), None) \<and>
   ListVolumes \<lparr>nodeID = [], vols = replicate 4294967296 vol0\<rparr> (ListVolumesRequest 0 ''0'') =
     Some (ListVolumesResponse (Reply_Result ([], [])), None)"
proof (intro conjI)
  show "ParseUint [] 32 = None" by (simp add: ParseUint_def)
  have l1: "ListVolumes_loop [vol0] (Suc 0) 0 0 [] = Some (Suc 0, [vol0])"
    by (simp add: ListVolumes_loop.simps)
  show "ListVolumes \<lparr>nodeID = [], vols = [vol0]\<rparr> (ListVolumesRequest 0 []) =
     Some (ListVolumesResponse (Reply_Result ([vol0], [])), None)"
    by (simp add: ListVolumes_def l1)
  have l0: "ListVolumes_loop (replicate 4294967296 vol0) 0 0 0 [] = Some (0, [])"
    by (simp add: ListVolumes_loop.simps)
  show "ListVolumes \<lparr>nodeID = [], vols = replicate 4294967296 vol0\<rparr> (ListVolumesRequest 0 ''0'') =
     Some (ListVolumesResponse (Reply_Result ([], [])), None)"
    by (simp add: ListVolumes_def ParseUint_0 l0)
qed


section \<open>Properties of the interceptor\<close>

subsection \<open>Reading and writing the state\<close>

lemma fst_TryLock: "fst (TryLock l t) = (\<not> locked l)"
  by (simp add: TryLock_def)

lemma lockWithID_frame [simp]:
  "world (lockWithID i k) = world i"
  "calls (lockWithID i k) = calls i"
  "opts (lockWithID i k) = opts i"
  "provider (lockWithID i k) = provider i"
  "volNameLocks (lockWithID i k) = volNameLocks i"
  "nameLock (lockWithID i k) n = nameLock i n"
  "idLock (lockWithID i k) k' = idLock i k'"
  by (auto simp: lockWithID_def idLock_def nameLock_def split: option.splits)

lemma lockWithName_frame [simp]:
  "world (lockWithName i k) = world i"
  "calls (lockWithName i k) = calls i"
  "opts (lockWithName i k) = opts i"
  "provider (lockWithName i k) = provider i"
  "volIDLocks (lockWithName i k) = volIDLocks i"
  "idLock (lockWithName i k) n = idLock i n"
  "nameLock (lockWithName i k) k' = nameLock i k'"
  by (auto simp: lockWithName_def idLock_def nameLock_def split: option.splits)

lemma setIDLock_frame [simp]:
  "world (setIDLock i k l) = world i"
  "calls (setIDLock i k l) = calls i"
  "opts (setIDLock i k l) = opts i"
  "provider (setIDLock i k l) = provider i"
  "volNameLocks (setIDLock i k l) = volNameLocks i"
  "nameLock (setIDLock i k l) n = nameLock i n"
  "idLock (setIDLock i k l) k' = (if k' = k then l else idLock i k')"
  by (auto simp: setIDLock_def idLock_def nameLock_def)

lemma setNameLock_frame [simp]:
  "world (setNameLock i k l) = world i"
  "calls (setNameLock i k l) = calls i"
  "opts (setNameLock i k l) = opts i"
  "provider (setNameLock i k l) = provider i"
  "volIDLocks (setNameLock i k l) = volIDLocks i"
  "idLock (setNameLock i k l) n = idLock i n"
  "nameLock (setNameLock i k l) k' = (if k' = k then l else nameLock i k')"
  by (auto simp: setNameLock_def idLock_def nameLock_def)

lemma noteCall_frame [simp]:
  "idLock (noteCall i w ev) k = idLock i k"
  "nameLock (noteCall i w ev) k = nameLock i k"
  "volIDLocks (noteCall i w ev) = volIDLocks i"
  "volNameLocks (noteCall i w ev) = volNameLocks i"
  "opts (noteCall i w ev) = opts i"
  "provider (noteCall i w ev) = provider i"
  "world (noteCall i w ev) = w"
  "calls (noteCall i w ev) = calls i @ [ev]"
  "locksAtCall (noteCall i w ev) = locksAtCall i @ [(volIDLocks i, volNameLocks i)]"
  by (simp_all add: noteCall_def idLock_def nameLock_def)

lemma held_tables [simp]:
  "heldID (volIDLocks i, volNameLocks i) k = locked (idLock i k)"
  "heldName (volIDLocks i, volNameLocks i) k = locked (nameLock i k)"
  by (simp_all add: heldID_def heldName_def idLock_def nameLock_def newVolLockInfo_def
      split: option.splits)

lemma call_GetVolumeInfo_eq:
  "GetVolumeInfo (provider i) a b (world i) = (r, w) \<Longrightarrow>
   call_GetVolumeInfo i a b = (r, noteCall i w (Call_GetVolumeInfo a b))"
  by (simp add: call_GetVolumeInfo_def)

lemma call_handler_eq:
  "call_handler h req i =
     (fst (h req (world i)), noteCall i (snd (h req (world i))) (Call_handler req))"
  by (simp add: call_handler_def split: prod.splits)

lemma lockWithID_log [simp]:
  "locksAtCall (lockWithID i k) = locksAtCall i"
  "locksAtCall (lockWithName i k) = locksAtCall i"
  "locksAtCall (setIDLock i k l) = locksAtCall i"
  "locksAtCall (setNameLock i k l) = locksAtCall i"
  by (simp_all add: lockWithID_def lockWithName_def setIDLock_def setNameLock_def
      split: option.splits)

lemma withIDLock_held:
  "locked (idLock i vid) \<Longrightarrow>
   withIDLock i vid fm pending ge body = (False, (Some pending, None), lockWithID i vid)"
  by (simp add: withIDLock_def TryLock_def Let_def)

lemma withIDLock_free:
  "\<not> locked (idLock i vid) \<Longrightarrow>
   body (setIDLock (lockWithID i vid) vid ((idLock i vid)\<lparr>locked := True\<rparr>)) = ((res, resErr), i2) \<Longrightarrow>
   withIDLock i vid fm pending ge body =
     (case deferMethodInErr fm resErr (ge res) (Unlock (idLock i2 vid)) of
        None \<Rightarrow> (True, (res, resErr), setIDLock i2 vid (Unlock (idLock i2 vid)))
      | Some lock' \<Rightarrow> (False, (res, resErr), setIDLock (setIDLock i2 vid (Unlock (idLock i2 vid))) vid lock'))"
  by (simp add: withIDLock_def TryLock_def Let_def)

lemma exInterceptor_simps [simp]:
  "provider (exInterceptor prov rv w) = prov"
  "opts (exInterceptor prov rv w) = \<lparr>timeout = 0, requireVolume = rv\<rparr>"
  "world (exInterceptor prov rv w) = w"
  "calls (exInterceptor prov rv w) = []"
  "locksAtCall (exInterceptor prov rv w) = []"
  "idLock (exInterceptor prov rv w) k = newVolLockInfo"
  "nameLock (exInterceptor prov rv w) k = newVolLockInfo"
  by (simp_all add: exInterceptor_def idLock_def nameLock_def)

text \<open>
  Claim C1. For each of the six covered RPCs, when \<open>TryLock\<close> on the lock record of the
  request's key (the volume id, the name for \<open>CreateVolume\<close>) times out, the procedure
  returns the RPC's reply with an embedded \<open>OPERATION_PENDING_FOR_VOLUME\<close> error and a
  nil error; the only change of state is the lock record fetched or created, so neither
  the provider nor the handler is called.
\<close>

theorem pending_on_timeout:
  "(\<not> fst (TryLock (idLock i vid) (timeout (opts i))) \<longrightarrow>
      handle i (ControllerPublishVolumeRequest vid node) fm h =
        (Return (Some (ErrControllerPublishVolume OPERATION_PENDING_FOR_VOLUME [])) None, lockWithID i vid) \<and>
      handle i (ControllerUnpublishVolumeRequest vid node) fm h =
        (Return (Some (ErrControllerUnpublishVolume OPERATION_PENDING_FOR_VOLUME [])) None, lockWithID i vid) \<and>
      handle i (DeleteVolumeRequest vid) fm h =
        (Return (Some (ErrDeleteVolume OPERATION_PENDING_FOR_VOLUME [])) None, lockWithID i vid) \<and>
      handle i (NodePublishVolumeRequest vid pub target) fm h =
        (Return (Some (ErrNodePublishVolume OPERATION_PENDING_FOR_VOLUME [])) None, lockWithID i vid) \<and>
      handle i (NodeUnpublishVolumeRequest vid target) fm h =
        (Return (Some (ErrNodeUnpublishVolume OPERATION_PENDING_FOR_VOLUME [])) None, lockWithID i vid) \<and>
      calls (lockWithID i vid) = calls i \<and> world (lockWithID i vid) = world i) \<and>
   (\<not> fst (TryLock (nameLock i name) (timeout (opts i))) \<longrightarrow>
      handle i (CreateVolumeRequest name cr) fm h =
        (Return (Some (ErrCreateVolume OPERATION_PENDING_FOR_VOLUME [])) None, lockWithName i name) \<and>
      calls (lockWithName i name) = calls i \<and> world (lockWithName i name) = world i)"
  by (simp add: fst_TryLock handle_def controllerPublishVolume_def controllerUnpublishVolume_def
      deleteVolume_def nodePublishVolume_def nodeUnpublishVolume_def withIDLock_held finish_def
      createVolume_def TryLock_def Let_def)


theorem pending_on_timeout_witness:
  "handle (setIDLock (exInterceptor exProvider False emptyBackend) ''v1'' heldLock)
      (DeleteVolumeRequest ''v1'') ''/csi.Controller/DeleteVolume'' exHandler =
     (Return (Some (ErrDeleteVolume OPERATION_PENDING_FOR_VOLUME [])) None,
      lockWithID (setIDLock (exInterceptor exProvider False emptyBackend) ''v1'' heldLock) ''v1'') \<and>
   calls (lockWithID (setIDLock (exInterceptor exProvider False emptyBackend) ''v1'' heldLock) ''v1'') = [] \<and>
   handle (setNameLock (exInterceptor exProvider False emptyBackend) ''alpha'' heldLock)
      (CreateVolumeRequest ''alpha'' None) ''/csi.Controller/CreateVolume'' exHandler =
     (Return (Some (ErrCreateVolume OPERATION_PENDING_FOR_VOLUME [])) None,
      lockWithName (setNameLock (exInterceptor exProvider False emptyBackend) ''alpha'' heldLock) ''alpha'') \<and>
   calls (lockWithName (setNameLock (exInterceptor exProvider False emptyBackend) ''alpha'' heldLock) ''alpha'') = []"
  using
    pending_on_timeout [of "setIDLock (exInterceptor exProvider False emptyBackend) ''v1'' heldLock"
       "''v1''" "''n''" "''/csi.Controller/DeleteVolume''" exHandler None "''t''" "''x''" None]
    pending_on_timeout [of "setNameLock (exInterceptor exProvider False emptyBackend) ''alpha'' heldLock"
       "''v1''" "''n''" "''/csi.Controller/CreateVolume''" exHandler None "''t''" "''alpha''" None]
  by (simp add: fst_TryLock heldLock_def)

lemmas proc_defs =
  handle_def controllerPublishVolume_def controllerUnpublishVolume_def deleteVolume_def
  nodePublishVolume_def nodeUnpublishVolume_def finish_def
  controllerPublishVolume_body_def controllerUnpublishVolume_body_def deleteVolume_body_def
  nodePublishVolume_body_def nodeUnpublishVolume_body_def checkVolumeExists_def
  deleteVolume_check_def deleteVolume_decide_def

lemmas err_defs =
  ErrControllerPublishVolume_def ErrControllerUnpublishVolume_def ErrDeleteVolume_def
  ErrNodePublishVolume_def ErrNodeUnpublishVolume_def ErrCreateVolume_def

lemma precheck_fails:
  assumes "requireVolume (opts i)"
    and "\<not> locked (idLock i vid)"
    and "fm \<notin> methodInErr (idLock i vid)"
    and "GetVolumeInfo (provider i) vid [] (world i) = ((None, None), w)"
  shows "fst (handle i (ControllerPublishVolumeRequest vid node) fm h) =
           Return (Some (ErrControllerPublishVolume VOLUME_DOES_NOT_EXIST [])) None"
    and "calls (snd (handle i (ControllerPublishVolumeRequest vid node) fm h)) =
           calls i @ [Call_GetVolumeInfo vid []]"
    and "fst (handle i (ControllerUnpublishVolumeRequest vid node) fm h) =
           Return (Some (ErrControllerUnpublishVolume VOLUME_DOES_NOT_EXIST [])) None"
    and "calls (snd (handle i (ControllerUnpublishVolumeRequest vid node) fm h)) =
           calls i @ [Call_GetVolumeInfo vid []]"
    and "fst (handle i (DeleteVolumeRequest vid) fm h) =
           Return (Some (ErrDeleteVolume VOLUME_DOES_NOT_EXIST [])) None"
    and "calls (snd (handle i (DeleteVolumeRequest vid) fm h)) =
           calls i @ [Call_GetVolumeInfo vid []]"
    and "fst (handle i (NodePublishVolumeRequest vid pub target) fm h) =
           Return (Some (ErrNodePublishVolume VOLUME_DOES_NOT_EXIST [])) None"
    and "calls (snd (handle i (NodePublishVolumeRequest vid pub target) fm h)) =
           calls i @ [Call_GetVolumeInfo vid []]"
    and "fst (handle i (NodeUnpublishVolumeRequest vid target) fm h) =
           Return (Some (ErrNodeUnpublishVolume VOLUME_DOES_NOT_EXIST [])) None"
    and "calls (snd (handle i (NodeUnpublishVolumeRequest vid target) fm h)) =
           calls i @ [Call_GetVolumeInfo vid []]"
  using assms
  by (simp_all add: proc_defs err_defs withIDLock_def TryLock_def Unlock_def Let_def
      call_GetVolumeInfo_eq deferMethodInErr_def)

text \<open>
  Claim C7, as the code has it. For \<open>DeleteVolume\<close>, \<open>ControllerPublishVolume\<close>,
  \<open>ControllerUnpublishVolume\<close>, \<open>NodePublishVolume\<close> and \<open>NodeUnpublishVolume\<close>: when
  \<open>requireVolume\<close> is set, the lock of the volume id is taken, the method is not marked
  in error on it, and \<open>GetVolumeInfo\<close> for the request's volume id returns nil with no
  error, the procedure returns the RPC's reply with an embedded \<open>VOLUME_DOES_NOT_EXIST\<close>
  error and a nil error, and the lookup is the only call made: the handler is not
  invoked.
\<close>

theorem volume_does_not_exist:
  assumes "requireVolume (opts i)"
    and "fst (TryLock (idLock i vid) (timeout (opts i)))"
    and "fm \<notin> methodInErr (idLock i vid)"
    and "GetVolumeInfo (provider i) vid [] (world i) = ((None, None), w)"
  shows "fst (handle i (ControllerPublishVolumeRequest vid node) fm h) =
           Return (Some (ErrControllerPublishVolume VOLUME_DOES_NOT_EXIST [])) None \<and>
         calls (snd (handle i (ControllerPublishVolumeRequest vid node) fm h)) =
           calls i @ [Call_GetVolumeInfo vid []] \<and>
         fst (handle i (ControllerUnpublishVolumeRequest vid node) fm h) =
           Return (Some (ErrControllerUnpublishVolume VOLUME_DOES_NOT_EXIST [])) None \<and>
         calls (snd (handle i (ControllerUnpublishVolumeRequest vid node) fm h)) =
           calls i @ [Call_GetVolumeInfo vid []] \<and>
         fst (handle i (DeleteVolumeRequest vid) fm h) =
           Return (Some (ErrDeleteVolume VOLUME_DOES_NOT_EXIST [])) None \<and>
         calls (snd (handle i (DeleteVolumeRequest vid) fm h)) =
           calls i @ [Call_GetVolumeInfo vid []] \<and>
         fst (handle i (NodePublishVolumeRequest vid pub target) fm h) =
           Return (Some (ErrNodePublishVolume VOLUME_DOES_NOT_EXIST [])) None \<and>
         calls (snd (handle i (NodePublishVolumeRequest vid pub target) fm h)) =
           calls i @ [Call_GetVolumeInfo vid []] \<and>
         fst (handle i (NodeUnpublishVolumeRequest vid target) fm h) =
           Return (Some (ErrNodeUnpublishVolume VOLUME_DOES_NOT_EXIST [])) None \<and>
         calls (snd (handle i (NodeUnpublishVolumeRequest vid target) fm h)) =
           calls i @ [Call_GetVolumeInfo vid []]"
proof -
  have free: "\<not> locked (idLock i vid)"
    using assms(2) by (simp add: fst_TryLock)
  show ?thesis
    using precheck_fails [OF assms(1) free assms(3) assms(4)] by blast
qed


theorem volume_does_not_exist_witness:
  "fst (handle (exInterceptor exProvider True emptyBackend)
         (ControllerUnpublishVolumeRequest ''v3'' ''n1'')
         ''/csi.Controller/ControllerUnpublishVolume'' exHandler) =
     Return (Some (ErrControllerUnpublishVolume VOLUME_DOES_NOT_EXIST [])) None \<and>
   calls (snd (handle (exInterceptor exProvider True emptyBackend)
         (ControllerUnpublishVolumeRequest ''v3'' ''n1'')
         ''/csi.Controller/ControllerUnpublishVolume'' exHandler)) = [Call_GetVolumeInfo ''v3'' []]"
  using volume_does_not_exist [of "exInterceptor exProvider True emptyBackend" "''v3''"
      "''/csi.Controller/ControllerUnpublishVolume''" emptyBackend "''n1''" exHandler None "''t''"]
  by (simp add: fst_TryLock newVolLockInfo_def exProvider_def emptyBackend_def)

text \<open>
  Claim C7 as stated fails: it leaves out the check of the error mark, which comes
  before the check that the volume exists (lines 265-267 before 271-281, and so in the
  other four). The \<open>VOLUME_DOES_NOT_EXIST\<close> reply is itself an embedded error, so the
  deferred function marks the method in error; on the next identical request
  \<open>requireVolume\<close> is set, the lock is free and \<open>GetVolumeInfo\<close> still returns nil with no
  error, and yet the request is handed to the handler and the handler's reply returned,
  \<open>GetVolumeInfo\<close> not being called again.
\<close>

theorem volume_does_not_exist_counterexample:
  "requireVolume (opts (snd (handle (exInterceptor exProvider True emptyBackend)
       (DeleteVolumeRequest ''v3'') ''/csi.Controller/DeleteVolume'' exHandler))) \<and>
   fst (TryLock (idLock (snd (handle (exInterceptor exProvider True emptyBackend)
       (DeleteVolumeRequest ''v3'') ''/csi.Controller/DeleteVolume'' exHandler)) ''v3'') 0) \<and>
   fst (GetVolumeInfo exProvider ''v3'' []
     (world (snd (handle (exInterceptor exProvider True emptyBackend)
       (DeleteVolumeRequest ''v3'') ''/csi.Controller/DeleteVolume'' exHandler)))) = (None, None) \<and>
   fst (handle (snd (handle (exInterceptor exProvider True emptyBackend)
                  (DeleteVolumeRequest ''v3'') ''/csi.Controller/DeleteVolume'' exHandler))
         (DeleteVolumeRequest ''v3'') ''/csi.Controller/DeleteVolume'' exHandler) =
     Return (Some (DeleteVolumeResponse (Reply_Result ()))) None \<and>
   calls (snd (handle (snd (handle (exInterceptor exProvider True emptyBackend)
                  (DeleteVolumeRequest ''v3'') ''/csi.Controller/DeleteVolume'' exHandler))
         (DeleteVolumeRequest ''v3'') ''/csi.Controller/DeleteVolume'' exHandler)) =
     [Call_GetVolumeInfo ''v3'' [], Call_handler (DeleteVolumeRequest ''v3'')]"
proof -
  let ?i = "exInterceptor exProvider True emptyBackend"
  let ?req = "DeleteVolumeRequest ''v3''"
  let ?fm = "''/csi.Controller/DeleteVolume''"
  let ?i1 = "snd (handle ?i ?req ?fm exHandler)"
  have first:
    "opts ?i1 = \<lparr>timeout = 0, requireVolume = True\<rparr>"
    "world ?i1 = emptyBackend"
    "calls ?i1 = [Call_GetVolumeInfo ''v3'' []]"
    "idLock ?i1 ''v3'' = \<lparr>locked = False, methodInErr = {?fm}\<rparr>"
    by (simp_all add: proc_defs err_defs withIDLock_def TryLock_def Unlock_def Let_def
        call_GetVolumeInfo_def deferMethodInErr_def newVolLockInfo_def exProvider_def
        emptyBackend_def)
  have marked: "\<And>j :: backend idempotencyInterceptor.
      idLock j ''v3'' = \<lparr>locked = False, methodInErr = {?fm}\<rparr> \<Longrightarrow>
      fst (handle j ?req ?fm exHandler) = Return (Some (DeleteVolumeResponse (Reply_Result ()))) None \<and>
      calls (snd (handle j ?req ?fm exHandler)) = calls j @ [Call_handler ?req]"
    by (simp add: proc_defs withIDLock_def TryLock_def Unlock_def Let_def call_handler_eq
        deferMethodInErr_def exHandler_def)
  have g: "fst (GetVolumeInfo exProvider ''v3'' [] emptyBackend) = (None, None)"
    by (simp add: exProvider_def emptyBackend_def)
  show ?thesis
    using marked [OF first(4)] by (simp add: first TryLock_def g)
qed


subsection \<open>DeleteVolume\<close>

lemma snd_finish: "snd (finish r) = snd (snd r)"
  by (cases r) (auto simp: finish_def)

lemma fst_finish:
  "fst (finish r) = (if fst r then Panic else Return (fst (fst (snd r))) (snd (fst (snd r))))"
  by (cases r) (auto simp: finish_def)

lemma acquired_frame [simp]:
  "world (acquired i k) = world i"
  "calls (acquired i k) = calls i"
  "opts (acquired i k) = opts i"
  "provider (acquired i k) = provider i"
  "nameLock (acquired i k) n = nameLock i n"
  "methodInErr (idLock (acquired i k) k') = methodInErr (idLock i k')"
  by (simp_all add: acquired_def)

lemma acquired_held:
  "locked (idLock (acquired i k) k)"
  "k' \<noteq> k \<Longrightarrow> idLock (acquired i k) k' = idLock i k'"
  "locksAtCall (acquired i k) = locksAtCall i"
  by (simp_all add: acquired_def lockWithID_log)

lemma withIDLock_calls:
  "\<not> locked (idLock i vid) \<Longrightarrow>
   calls (snd (snd (withIDLock i vid fm p ge body))) = calls (snd (body (acquired i vid)))"
  by (simp add: withIDLock_def acquired_def TryLock_def Let_def split: prod.splits option.splits)

lemma withIDLock_world:
  "\<not> locked (idLock i vid) \<Longrightarrow>
   world (snd (snd (withIDLock i vid fm p ge body))) = world (snd (body (acquired i vid)))"
  by (simp add: withIDLock_def acquired_def TryLock_def Let_def split: prod.splits option.splits)

lemma deleteVolume_body_lookup:
  assumes "fm \<notin> methodInErr (idLock i (VolumeId req))"
  shows "filter isGetVolumeInfoCall (calls (snd (deleteVolume_body req fm h i))) =
         filter isGetVolumeInfoCall (calls i) @ [Call_GetVolumeInfo (VolumeId req) []]"
proof -
  obtain vi err w where g: "GetVolumeInfo (provider i) (VolumeId req) [] (world i) = ((vi, err), w)"
    by (metis prod.exhaust)
  show ?thesis
    using assms g
    by (simp add: deleteVolume_body_def deleteVolume_check_def deleteVolume_decide_def
        call_GetVolumeInfo_eq call_handler_eq)
qed

lemma deleteVolume_one_lookup:
  assumes free: "\<not> locked (idLock i vid)"
    and fresh: "fm \<notin> methodInErr (idLock i vid)"
  shows "filter isGetVolumeInfoCall (calls (snd (handle i (DeleteVolumeRequest vid) fm h))) =
         filter isGetVolumeInfoCall (calls i) @ [Call_GetVolumeInfo vid []]"
  using fresh
  by (simp add: handle_def deleteVolume_def snd_finish withIDLock_calls [OF free]
      deleteVolume_body_lookup)

text \<open>
  Claim C6, as the code has it. A \<open>DeleteVolume\<close> call that gets past the check of the
  error mark calls \<open>GetVolumeInfo\<close> exactly once, whether \<open>requireVolume\<close> is set or not:
  when it is set, the lookup of lines 471-480 sets \<open>volExists\<close> and the lookup of lines
  485-491 is skipped.
\<close>

theorem deleteVolume_lookups:
  assumes "fst (TryLock (idLock i vid) (timeout (opts i)))"
    and "fm \<notin> methodInErr (idLock i vid)"
  shows "length (filter isGetVolumeInfoCall (calls (snd (handle i (DeleteVolumeRequest vid) fm h)))) =
         length (filter isGetVolumeInfoCall (calls i)) + 1"
proof -
  have free: "\<not> locked (idLock i vid)"
    using assms(1) by (simp add: fst_TryLock)
  show ?thesis
    by (simp add: deleteVolume_one_lookup [OF free assms(2)])
qed

theorem deleteVolume_lookups_witness:
  "length (filter isGetVolumeInfoCall
     (calls (snd (handle (exInterceptor exProvider False emptyBackend) (DeleteVolumeRequest ''v1'')
        ''/csi.Controller/DeleteVolume'' exHandler)))) = 1"
  using deleteVolume_lookups [of "exInterceptor exProvider False emptyBackend" "''v1''"
      "''/csi.Controller/DeleteVolume''" exHandler]
  by (simp add: fst_TryLock newVolLockInfo_def)

text \<open>
  Claim C6 as stated fails: with \<open>requireVolume\<close> set and the volume present the call
  makes one lookup, not two, and then calls the handler.
\<close>

theorem deleteVolume_lookups_counterexample:
  "requireVolume (opts (exInterceptor exProvider True (emptyBackend\<lparr>volume := Some vol1\<rparr>))) \<and>
   calls (snd (handle (exInterceptor exProvider True (emptyBackend\<lparr>volume := Some vol1\<rparr>))
        (DeleteVolumeRequest ''v1'') ''/csi.Controller/DeleteVolume'' exHandler)) =
     [Call_GetVolumeInfo ''v1'' [], Call_handler (DeleteVolumeRequest ''v1'')] \<and>
   length (filter isGetVolumeInfoCall
     (calls (snd (handle (exInterceptor exProvider True (emptyBackend\<lparr>volume := Some vol1\<rparr>))
        (DeleteVolumeRequest ''v1'') ''/csi.Controller/DeleteVolume'' exHandler)))) = 1"
  by (simp add: proc_defs withIDLock_def TryLock_def Unlock_def Let_def newVolLockInfo_def
      call_GetVolumeInfo_def call_handler_def noteCall_def exProvider_def exHandler_def emptyBackend_def
      deferMethodInErr_def)


subsection \<open>CreateVolume\<close>

lemma acquiredName_frame [simp]:
  "world (acquiredName i k) = world i"
  "calls (acquiredName i k) = calls i"
  "opts (acquiredName i k) = opts i"
  "provider (acquiredName i k) = provider i"
  "idLock (acquiredName i k) n = idLock i n"
  "methodInErr (nameLock (acquiredName i k) k') = methodInErr (nameLock i k')"
  "locksAtCall (acquiredName i k) = locksAtCall i"
  by (simp_all add: acquiredName_def lockWithID_log)

lemma withIDLock_result:
  "\<not> locked (idLock i vid) \<Longrightarrow>
   fst (snd (withIDLock i vid fm p ge body)) = fst (body (acquired i vid))"
  by (simp add: withIDLock_def acquired_def TryLock_def Let_def split: prod.splits option.splits)

lemma withIDLock_panicking:
  "\<not> locked (idLock i vid) \<Longrightarrow> body (acquired i vid) = ((res, resErr), i2) \<Longrightarrow>
   fst (withIDLock i vid fm p ge body) =
     (deferMethodInErr fm resErr (ge res) (Unlock (idLock i2 vid)) = None)"
  by (simp add: withIDLock_def acquired_def TryLock_def Let_def split: prod.splits option.splits)

lemma createVolume_held:
  "locked (nameLock i (Name req)) \<Longrightarrow>
   createVolume i req fm h =
     (Return (Some (ErrCreateVolume OPERATION_PENDING_FOR_VOLUME [])) None, lockWithName i (Name req))"
  by (simp add: createVolume_def TryLock_def Let_def)

lemma createVolume_calls:
  "\<not> locked (nameLock i (Name req)) \<Longrightarrow>
   calls (snd (createVolume i req fm h)) =
     calls (snd (snd (createVolume_nameLocked req fm h (acquiredName i (Name req)))))"
  by (simp add: createVolume_def acquiredName_def TryLock_def Let_def split: prod.splits option.splits)

lemma createVolume_outcome:
  "\<not> locked (nameLock i (Name req)) \<Longrightarrow>
   createVolume_nameLocked req fm h (acquiredName i (Name req)) = (pan, (res, resErr), i2) \<Longrightarrow>
   fst (createVolume i req fm h) =
     (if createVolume_deferName fm resErr (CreateVolumeResponse_GetError res)
           (Unlock (nameLock i2 (Name req))) = None \<or> pan
      then Panic else Return res resErr)"
  by (auto simp: createVolume_def acquiredName_def TryLock_def Let_def split: prod.splits option.splits)

lemma createVolume_outcome_cases:
  assumes "\<not> locked (nameLock i (Name req))"
  shows "fst (createVolume i req fm h) = Panic \<or>
         fst (createVolume i req fm h) =
           Return (fst (fst (snd (createVolume_nameLocked req fm h (acquiredName i (Name req))))))
                  (snd (fst (snd (createVolume_nameLocked req fm h (acquiredName i (Name req))))))"
proof -
  obtain pan res resErr i2 where
    r: "createVolume_nameLocked req fm h (acquiredName i (Name req)) = (pan, (res, resErr), i2)"
    by (metis prod.exhaust)
  show ?thesis
    using createVolume_outcome [OF assms r] r by auto
qed

lemma deferName_pending [simp]:
  "createVolume_deferName fm None
     (CreateVolumeResponse_GetError (Some (ErrCreateVolume OPERATION_PENDING_FOR_VOLUME msg))) l = Some l"
  by (simp add: createVolume_deferName_def createVolume_markNameInErr_def ErrCreateVolume_def)

lemma deferName_result [simp]:
  "createVolume_deferName fm None (Some None) l \<noteq> None"
  by (simp add: createVolume_deferName_def)

lemma deferMethodInErr_result [simp]:
  "deferMethodInErr fm None (Some None) l \<noteq> None"
  by (simp add: deferMethodInErr_def)

lemma withIDLock_log:
  "\<not> locked (idLock i vid) \<Longrightarrow>
   locksAtCall (snd (snd (withIDLock i vid fm p ge body))) =
     locksAtCall (snd (body (acquired i vid)))"
  by (simp add: withIDLock_def acquired_def TryLock_def Let_def split: prod.splits option.splits)

lemma withIDLock_nameLock:
  "\<not> locked (idLock i vid) \<Longrightarrow>
   nameLock (snd (snd (withIDLock i vid fm p ge body))) k = nameLock (snd (body (acquired i vid))) k"
  by (simp add: withIDLock_def acquired_def TryLock_def Let_def split: prod.splits option.splits)

lemma deferMethodInErr_locked:
  "deferMethodInErr fm resErr g l = Some l' \<Longrightarrow> locked l' = locked l"
  by (auto simp: deferMethodInErr_def split: if_splits option.splits)

lemma createVolume_deferName_locked:
  "createVolume_deferName fm resErr g l = Some l' \<Longrightarrow> locked l' = locked l"
  by (auto simp: createVolume_deferName_def createVolume_markNameInErr_def
      split: if_splits option.splits ErrorValue.splits)

lemma deferMethodInErr_None_iff:
  "(deferMethodInErr fm resErr g l = None) = (resErr = None \<and> g = None)"
  by (auto simp: deferMethodInErr_def split: option.splits)

lemma createVolume_deferName_None_iff:
  "(createVolume_deferName fm resErr g l = None) = (g = None \<or> (resErr \<noteq> None \<and> g = Some None))"
  by (auto simp: createVolume_deferName_def createVolume_markNameInErr_def
      split: option.splits ErrorValue.splits)

lemma withIDLock_released:
  "\<not> locked (idLock i vid) \<Longrightarrow> \<not> locked (idLock (snd (snd (withIDLock i vid fm p ge body))) vid)"
  by (auto simp: withIDLock_def acquired_def TryLock_def Unlock_def Let_def
      split: prod.splits option.splits dest: deferMethodInErr_locked)

lemma createVolume_log:
  "\<not> locked (nameLock i (Name req)) \<Longrightarrow>
   locksAtCall (snd (createVolume i req fm h)) =
     locksAtCall (snd (snd (createVolume_nameLocked req fm h (acquiredName i (Name req)))))"
  by (simp add: createVolume_def acquiredName_def TryLock_def Let_def split: prod.splits option.splits)

lemma createVolume_idLock_after:
  "\<not> locked (nameLock i (Name req)) \<Longrightarrow>
   idLock (snd (createVolume i req fm h)) k =
     idLock (snd (snd (createVolume_nameLocked req fm h (acquiredName i (Name req))))) k"
  by (simp add: createVolume_def acquiredName_def TryLock_def Let_def split: prod.splits option.splits)

lemma createVolume_released:
  "\<not> locked (nameLock i (Name req)) \<Longrightarrow>
   \<not> locked (nameLock (snd (createVolume i req fm h)) (Name req))"
  by (auto simp: createVolume_def acquiredName_def TryLock_def Unlock_def Let_def
      split: prod.splits option.splits dest: createVolume_deferName_locked)

lemma createVolume_delegated_eq:
  assumes free: "\<not> locked (nameLock i (Name req))"
    and r: "createVolume_nameLocked req fm h (acquiredName i (Name req)) = (pan, re, i2)"
    and pan: "pan = (snd re = None \<and> CreateVolumeResponse_GetError (fst re) = None)"
  shows "fst (createVolume i req fm h) = createVolume_delegated re"
proof -
  obtain res resErr where re: "re = (res, resErr)" by (cases re)
  show ?thesis
    using createVolume_outcome [OF free r [unfolded re]] pan re
    by (auto simp: createVolume_delegated_def createVolume_deferName_None_iff)
qed

text \<open>
  Claim C3. A \<open>CreateVolume\<close> request whose name lock is taken, whose method is not
  marked in error on it and whose lookup by name returns without error. The name lock
  is held at every call the procedure makes and released when it ends. If the lookup
  gives nil the handler is called (the calls are the lookup, then the handler);
  otherwise the id lock of the volume found is tried, and on timeout the embedded
  \<open>OPERATION_PENDING_FOR_VOLUME\<close> reply is returned with no further call. With the id lock
  taken (it is free at the lookup by name, held at every later call and released at the
  end), a mark in error on it sends the request to the handler with no second lookup;
  without one the volume is looked up by id, the handler is called if that gives nil,
  and otherwise the reply is a result carrying the volume of the second lookup, the
  handler not being called. Where the handler is called, the outcome is what
  \<open>createVolume_delegated\<close> makes of the handler's result: that result, or a panic of a
  deferred function.
\<close>

theorem createVolume_decision:
  assumes lock: "fst (TryLock (nameLock i name) (timeout (opts i)))"
    and fresh: "fm \<notin> methodInErr (nameLock i name)"
    and first: "GetVolumeInfo (provider i) [] name (world i) = ((vi, None), w1)"
    and req: "req = CreateVolumeRequest name cr"
  shows
   "\<not> locked (nameLock (snd (handle i req fm h)) name) \<and>
    (vi = None \<longrightarrow>
       calls (snd (handle i req fm h)) = calls i @ [Call_GetVolumeInfo [] name, Call_handler req] \<and>
       map (\<lambda>t. heldName t name) (drop (length (locksAtCall i)) (locksAtCall (snd (handle i req fm h)))) =
         [True, True] \<and>
       fst (handle i req fm h) = createVolume_delegated (fst (h req w1))) \<and>
    (\<forall>v. vi = Some v \<and> \<not> fst (TryLock (idLock i (VolumeInfo_Id v)) (timeout (opts i))) \<longrightarrow>
       calls (snd (handle i req fm h)) = calls i @ [Call_GetVolumeInfo [] name] \<and>
       map (\<lambda>t. heldName t name) (drop (length (locksAtCall i)) (locksAtCall (snd (handle i req fm h)))) =
         [True] \<and>
       fst (handle i req fm h) = Return (Some (ErrCreateVolume OPERATION_PENDING_FOR_VOLUME [])) None) \<and>
    (\<forall>v. vi = Some v \<and> fst (TryLock (idLock i (VolumeInfo_Id v)) (timeout (opts i))) \<and>
         fm \<in> methodInErr (idLock i (VolumeInfo_Id v)) \<longrightarrow>
       calls (snd (handle i req fm h)) = calls i @ [Call_GetVolumeInfo [] name, Call_handler req] \<and>
       map (\<lambda>t. (heldName t name, heldID t (VolumeInfo_Id v)))
           (drop (length (locksAtCall i)) (locksAtCall (snd (handle i req fm h)))) =
         [(True, False), (True, True)] \<and>
       \<not> locked (idLock (snd (handle i req fm h)) (VolumeInfo_Id v)) \<and>
       fst (handle i req fm h) = createVolume_delegated (fst (h req w1))) \<and>
    (\<forall>v w2. vi = Some v \<and> fst (TryLock (idLock i (VolumeInfo_Id v)) (timeout (opts i))) \<and>
         fm \<notin> methodInErr (idLock i (VolumeInfo_Id v)) \<and>
         GetVolumeInfo (provider i) (VolumeInfo_Id v) [] w1 = ((None, None), w2) \<longrightarrow>
       calls (snd (handle i req fm h)) =
         calls i @ [Call_GetVolumeInfo [] name, Call_GetVolumeInfo (VolumeInfo_Id v) [], Call_handler req] \<and>
       map (\<lambda>t. (heldName t name, heldID t (VolumeInfo_Id v)))
           (drop (length (locksAtCall i)) (locksAtCall (snd (handle i req fm h)))) =
         [(True, False), (True, True), (True, True)] \<and>
       \<not> locked (idLock (snd (handle i req fm h)) (VolumeInfo_Id v)) \<and>
       fst (handle i req fm h) = createVolume_delegated (fst (h req w2))) \<and>
    (\<forall>v v' w2. vi = Some v \<and> fst (TryLock (idLock i (VolumeInfo_Id v)) (timeout (opts i))) \<and>
         fm \<notin> methodInErr (idLock i (VolumeInfo_Id v)) \<and>
         GetVolumeInfo (provider i) (VolumeInfo_Id v) [] w1 = ((Some v', None), w2) \<longrightarrow>
       calls (snd (handle i req fm h)) =
         calls i @ [Call_GetVolumeInfo [] name, Call_GetVolumeInfo (VolumeInfo_Id v) []] \<and>
       map (\<lambda>t. (heldName t name, heldID t (VolumeInfo_Id v)))
           (drop (length (locksAtCall i)) (locksAtCall (snd (handle i req fm h)))) =
         [(True, False), (True, True)] \<and>
       \<not> locked (idLock (snd (handle i req fm h)) (VolumeInfo_Id v)) \<and>
       fst (handle i req fm h) = Return (Some (CreateVolumeResponse (Reply_Result v'))) None)"
proof -
  have free: "\<not> locked (nameLock i (Name req))"
    using lock req by (simp add: fst_TryLock)
  have fresh': "fm \<notin> methodInErr (nameLock i (Name req))"
    using fresh req by simp
  have hd: "handle i req fm h = createVolume i req fm h"
    using req by (simp add: handle_def)
  have nm: "Name req = name" using req by simp
  note cc = createVolume_calls [OF free, of fm h]
  note lc = createVolume_log [OF free, of fm h]
  note ic = createVolume_idLock_after [OF free, of fm h]
  let ?a = "acquiredName i (Name req)"
  let ?i1 = "noteCall ?a w1 (Call_GetVolumeInfo [] name)"
  let ?R = "createVolume_nameLocked req fm h ?a"
  have held: "locked (nameLock ?a name)" "\<And>k. locked (idLock ?a k) = locked (idLock i k)"
    using nm by (simp_all add: acquiredName_def)
  have c0: "\<not> locked (nameLock (snd (handle i req fm h)) name)"
    using createVolume_released [OF free, of fm h] nm by (simp add: hd)
  have nl: "vi = None \<Longrightarrow> ?R = (False, call_handler h req ?i1)"
    using fresh' first req
    by (simp add: createVolume_nameLocked_def call_GetVolumeInfo_eq)
  have sm: "\<And>v. vi = Some v \<Longrightarrow>
      ?R = withIDLock ?i1 (VolumeInfo_Id v) fm (ErrCreateVolume OPERATION_PENDING_FOR_VOLUME [])
             CreateVolumeResponse_GetError (createVolume_idLocked req v fm h)"
    using fresh' first req
    by (simp add: createVolume_nameLocked_def call_GetVolumeInfo_eq)
  have c1: "vi = None \<longrightarrow>
       calls (snd (handle i req fm h)) = calls i @ [Call_GetVolumeInfo [] name, Call_handler req] \<and>
       map (\<lambda>t. heldName t name) (drop (length (locksAtCall i)) (locksAtCall (snd (handle i req fm h)))) =
         [True, True] \<and>
       fst (handle i req fm h) = createVolume_delegated (fst (h req w1))"
  proof
    assume n: "vi = None"
    have r: "?R = (False, fst (h req w1), noteCall ?i1 (snd (h req w1)) (Call_handler req))"
      using nl [OF n] by (simp add: call_handler_eq)
    have o: "fst (createVolume i req fm h) = createVolume_delegated (fst (h req w1))"
    proof (cases "snd (fst (h req w1)) = None \<and> CreateVolumeResponse_GetError (fst (fst (h req w1))) = None")
      case False
      then show ?thesis using createVolume_delegated_eq [OF free r] by simp
    next
      case True
      obtain res resErr where re: "fst (h req w1) = (res, resErr)" by (cases "fst (h req w1)")
      show ?thesis
        using createVolume_outcome [OF free r [unfolded re]] True re
        by (simp add: createVolume_delegated_def createVolume_deferName_None_iff)
    qed
    show "calls (snd (handle i req fm h)) = calls i @ [Call_GetVolumeInfo [] name, Call_handler req] \<and>
       map (\<lambda>t. heldName t name) (drop (length (locksAtCall i)) (locksAtCall (snd (handle i req fm h)))) =
         [True, True] \<and>
       fst (handle i req fm h) = createVolume_delegated (fst (h req w1))"
      using cc lc r o held by (simp add: hd)
  qed
  have c2: "\<forall>v. vi = Some v \<and> \<not> fst (TryLock (idLock i (VolumeInfo_Id v)) (timeout (opts i))) \<longrightarrow>
       calls (snd (handle i req fm h)) = calls i @ [Call_GetVolumeInfo [] name] \<and>
       map (\<lambda>t. heldName t name) (drop (length (locksAtCall i)) (locksAtCall (snd (handle i req fm h)))) =
         [True] \<and>
       fst (handle i req fm h) = Return (Some (ErrCreateVolume OPERATION_PENDING_FOR_VOLUME [])) None"
  proof (intro allI impI)
    fix v assume a: "vi = Some v \<and> \<not> fst (TryLock (idLock i (VolumeInfo_Id v)) (timeout (opts i)))"
    then have idheld: "locked (idLock ?i1 (VolumeInfo_Id v))" by (simp add: fst_TryLock)
    have r: "?R = (False, (Some (ErrCreateVolume OPERATION_PENDING_FOR_VOLUME []), None),
         lockWithID ?i1 (VolumeInfo_Id v))"
      using sm a withIDLock_held [OF idheld] by simp
    show "calls (snd (handle i req fm h)) = calls i @ [Call_GetVolumeInfo [] name] \<and>
       map (\<lambda>t. heldName t name) (drop (length (locksAtCall i)) (locksAtCall (snd (handle i req fm h)))) =
         [True] \<and>
       fst (handle i req fm h) = Return (Some (ErrCreateVolume OPERATION_PENDING_FOR_VOLUME [])) None"
      using cc lc createVolume_outcome [OF free r] r held by (simp add: hd lockWithID_log)
  qed
  have c3: "\<forall>v. vi = Some v \<and> fst (TryLock (idLock i (VolumeInfo_Id v)) (timeout (opts i))) \<and>
         fm \<in> methodInErr (idLock i (VolumeInfo_Id v)) \<longrightarrow>
       calls (snd (handle i req fm h)) = calls i @ [Call_GetVolumeInfo [] name, Call_handler req] \<and>
       map (\<lambda>t. (heldName t name, heldID t (VolumeInfo_Id v)))
           (drop (length (locksAtCall i)) (locksAtCall (snd (handle i req fm h)))) =
         [(True, False), (True, True)] \<and>
       \<not> locked (idLock (snd (handle i req fm h)) (VolumeInfo_Id v)) \<and>
       fst (handle i req fm h) = createVolume_delegated (fst (h req w1))"
  proof (intro allI impI)
    fix v assume a: "vi = Some v \<and> fst (TryLock (idLock i (VolumeInfo_Id v)) (timeout (opts i))) \<and>
         fm \<in> methodInErr (idLock i (VolumeInfo_Id v))"
    let ?vid = "VolumeInfo_Id v"
    let ?b = "createVolume_idLocked req v fm h"
    let ?p = "ErrCreateVolume OPERATION_PENDING_FOR_VOLUME []"
    have idf: "\<not> locked (idLock i ?vid)" using a by (simp add: fst_TryLock)
    then have idfree: "\<not> locked (idLock ?i1 ?vid)" by simp
    have body: "?b (acquired ?i1 ?vid) =
        (fst (h req w1), noteCall (acquired ?i1 ?vid) (snd (h req w1)) (Call_handler req))"
      using a by (simp add: createVolume_idLocked_def call_handler_eq)
    obtain res resErr where re: "fst (h req w1) = (res, resErr)" by (cases "fst (h req w1)")
    have R: "?R = (resErr = None \<and> CreateVolumeResponse_GetError res = None, (res, resErr),
                   snd (snd (withIDLock ?i1 ?vid fm ?p CreateVolumeResponse_GetError ?b)))"
      using sm a
        withIDLock_panicking [where body = ?b and i = ?i1 and vid = ?vid and fm = fm and p = ?p
          and ge = CreateVolumeResponse_GetError, OF idfree body [unfolded re]]
        withIDLock_result [OF idfree, of fm ?p CreateVolumeResponse_GetError ?b] body re
      by (simp add: prod_eq_iff deferMethodInErr_None_iff)
    have o: "fst (createVolume i req fm h) = createVolume_delegated (fst (h req w1))"
      using createVolume_delegated_eq [OF free R] re by simp
    have rel: "\<not> locked (idLock (snd (handle i req fm h)) ?vid)"
      using ic sm a withIDLock_released [OF idfree, of fm ?p CreateVolumeResponse_GetError ?b]
      by (simp add: hd)
    show "calls (snd (handle i req fm h)) = calls i @ [Call_GetVolumeInfo [] name, Call_handler req] \<and>
       map (\<lambda>t. (heldName t name, heldID t (VolumeInfo_Id v)))
           (drop (length (locksAtCall i)) (locksAtCall (snd (handle i req fm h)))) =
         [(True, False), (True, True)] \<and>
       \<not> locked (idLock (snd (handle i req fm h)) (VolumeInfo_Id v)) \<and>
       fst (handle i req fm h) = createVolume_delegated (fst (h req w1))"
      using cc lc sm a withIDLock_calls [OF idfree] withIDLock_log [OF idfree] body o rel held idf
      by (simp add: hd acquired_held)
  qed
  have c4: "\<forall>v w2. vi = Some v \<and> fst (TryLock (idLock i (VolumeInfo_Id v)) (timeout (opts i))) \<and>
         fm \<notin> methodInErr (idLock i (VolumeInfo_Id v)) \<and>
         GetVolumeInfo (provider i) (VolumeInfo_Id v) [] w1 = ((None, None), w2) \<longrightarrow>
       calls (snd (handle i req fm h)) =
         calls i @ [Call_GetVolumeInfo [] name, Call_GetVolumeInfo (VolumeInfo_Id v) [], Call_handler req] \<and>
       map (\<lambda>t. (heldName t name, heldID t (VolumeInfo_Id v)))
           (drop (length (locksAtCall i)) (locksAtCall (snd (handle i req fm h)))) =
         [(True, False), (True, True), (True, True)] \<and>
       \<not> locked (idLock (snd (handle i req fm h)) (VolumeInfo_Id v)) \<and>
       fst (handle i req fm h) = createVolume_delegated (fst (h req w2))"
  proof (intro allI impI)
    fix v w2 assume a: "vi = Some v \<and> fst (TryLock (idLock i (VolumeInfo_Id v)) (timeout (opts i))) \<and>
         fm \<notin> methodInErr (idLock i (VolumeInfo_Id v)) \<and>
         GetVolumeInfo (provider i) (VolumeInfo_Id v) [] w1 = ((None, None), w2)"
    let ?vid = "VolumeInfo_Id v"
    let ?b = "createVolume_idLocked req v fm h"
    let ?p = "ErrCreateVolume OPERATION_PENDING_FOR_VOLUME []"
    let ?i2 = "noteCall (acquired ?i1 ?vid) w2 (Call_GetVolumeInfo ?vid [])"
    have idf: "\<not> locked (idLock i ?vid)" using a by (simp add: fst_TryLock)
    then have idfree: "\<not> locked (idLock ?i1 ?vid)" by simp
    have g: "GetVolumeInfo (provider (acquired ?i1 ?vid)) ?vid [] (world (acquired ?i1 ?vid)) =
               ((None, None), w2)"
      using a by simp
    have body: "?b (acquired ?i1 ?vid) =
        (fst (h req w2), noteCall ?i2 (snd (h req w2)) (Call_handler req))"
      using a by (simp add: createVolume_idLocked_def call_GetVolumeInfo_eq [OF g] call_handler_eq)
    obtain res resErr where re: "fst (h req w2) = (res, resErr)" by (cases "fst (h req w2)")
    have R: "?R = (resErr = None \<and> CreateVolumeResponse_GetError res = None, (res, resErr),
                   snd (snd (withIDLock ?i1 ?vid fm ?p CreateVolumeResponse_GetError ?b)))"
      using sm a
        withIDLock_panicking [where body = ?b and i = ?i1 and vid = ?vid and fm = fm and p = ?p
          and ge = CreateVolumeResponse_GetError, OF idfree body [unfolded re]]
        withIDLock_result [OF idfree, of fm ?p CreateVolumeResponse_GetError ?b] body re
      by (simp add: prod_eq_iff deferMethodInErr_None_iff)
    have o: "fst (createVolume i req fm h) = createVolume_delegated (fst (h req w2))"
      using createVolume_delegated_eq [OF free R] re by simp
    have rel: "\<not> locked (idLock (snd (handle i req fm h)) ?vid)"
      using ic sm a withIDLock_released [OF idfree, of fm ?p CreateVolumeResponse_GetError ?b]
      by (simp add: hd)
    show "calls (snd (handle i req fm h)) =
         calls i @ [Call_GetVolumeInfo [] name, Call_GetVolumeInfo (VolumeInfo_Id v) [], Call_handler req] \<and>
       map (\<lambda>t. (heldName t name, heldID t (VolumeInfo_Id v)))
           (drop (length (locksAtCall i)) (locksAtCall (snd (handle i req fm h)))) =
         [(True, False), (True, True), (True, True)] \<and>
       \<not> locked (idLock (snd (handle i req fm h)) (VolumeInfo_Id v)) \<and>
       fst (handle i req fm h) = createVolume_delegated (fst (h req w2))"
      using cc lc sm a withIDLock_calls [OF idfree] withIDLock_log [OF idfree] body o rel held idf
      by (simp add: hd acquired_held)
  qed
  have c5: "\<forall>v v' w2. vi = Some v \<and> fst (TryLock (idLock i (VolumeInfo_Id v)) (timeout (opts i))) \<and>
         fm \<notin> methodInErr (idLock i (VolumeInfo_Id v)) \<and>
         GetVolumeInfo (provider i) (VolumeInfo_Id v) [] w1 = ((Some v', None), w2) \<longrightarrow>
       calls (snd (handle i req fm h)) =
         calls i @ [Call_GetVolumeInfo [] name, Call_GetVolumeInfo (VolumeInfo_Id v) []] \<and>
       map (\<lambda>t. (heldName t name, heldID t (VolumeInfo_Id v)))
           (drop (length (locksAtCall i)) (locksAtCall (snd (handle i req fm h)))) =
         [(True, False), (True, True)] \<and>
       \<not> locked (idLock (snd (handle i req fm h)) (VolumeInfo_Id v)) \<and>
       fst (handle i req fm h) = Return (Some (CreateVolumeResponse (Reply_Result v'))) None"
  proof (intro allI impI)
    fix v v' w2 assume a: "vi = Some v \<and> fst (TryLock (idLock i (VolumeInfo_Id v)) (timeout (opts i))) \<and>
         fm \<notin> methodInErr (idLock i (VolumeInfo_Id v)) \<and>
         GetVolumeInfo (provider i) (VolumeInfo_Id v) [] w1 = ((Some v', None), w2)"
    let ?vid = "VolumeInfo_Id v"
    let ?b = "createVolume_idLocked req v fm h"
    let ?p = "ErrCreateVolume OPERATION_PENDING_FOR_VOLUME []"
    let ?i2 = "noteCall (acquired ?i1 ?vid) w2 (Call_GetVolumeInfo ?vid [])"
    have idf: "\<not> locked (idLock i ?vid)" using a by (simp add: fst_TryLock)
    then have idfree: "\<not> locked (idLock ?i1 ?vid)" by simp
    have g: "GetVolumeInfo (provider (acquired ?i1 ?vid)) ?vid [] (world (acquired ?i1 ?vid)) =
               ((Some v', None), w2)"
      using a by simp
    have body: "?b (acquired ?i1 ?vid) = ((Some (CreateVolumeResponse (Reply_Result v')), None), ?i2)"
      using a by (simp add: createVolume_idLocked_def call_GetVolumeInfo_eq [OF g])
    have R: "?R = (False, (Some (CreateVolumeResponse (Reply_Result v')), None),
                   snd (snd (withIDLock ?i1 ?vid fm ?p CreateVolumeResponse_GetError ?b)))"
      using sm a
        withIDLock_panicking [where body = ?b and i = ?i1 and vid = ?vid and fm = fm and p = ?p
          and ge = CreateVolumeResponse_GetError, OF idfree body]
        withIDLock_result [OF idfree, of fm ?p CreateVolumeResponse_GetError ?b] body
      by (simp add: prod_eq_iff deferMethodInErr_None_iff)
    have o: "fst (createVolume i req fm h) = Return (Some (CreateVolumeResponse (Reply_Result v'))) None"
      using createVolume_outcome [OF free R] by simp
    have rel: "\<not> locked (idLock (snd (handle i req fm h)) ?vid)"
      using ic sm a withIDLock_released [OF idfree, of fm ?p CreateVolumeResponse_GetError ?b]
      by (simp add: hd)
    show "calls (snd (handle i req fm h)) =
         calls i @ [Call_GetVolumeInfo [] name, Call_GetVolumeInfo (VolumeInfo_Id v) []] \<and>
       map (\<lambda>t. (heldName t name, heldID t (VolumeInfo_Id v)))
           (drop (length (locksAtCall i)) (locksAtCall (snd (handle i req fm h)))) =
         [(True, False), (True, True)] \<and>
       \<not> locked (idLock (snd (handle i req fm h)) (VolumeInfo_Id v)) \<and>
       fst (handle i req fm h) = Return (Some (CreateVolumeResponse (Reply_Result v'))) None"
      using cc lc sm a withIDLock_calls [OF idfree] withIDLock_log [OF idfree] body o rel held idf
      by (simp add: hd acquired_held)
  qed
  show ?thesis using c0 c1 c2 c3 c4 c5 by blast
qed

lemmas create_defs =
  handle_def createVolume_def createVolume_nameLocked_def createVolume_idLocked_def
  withIDLock_def TryLock_def Unlock_def Let_def call_GetVolumeInfo_def call_handler_def noteCall_def
  deferMethodInErr_def createVolume_deferName_def createVolume_markNameInErr_def
  ErrCreateVolume_def newVolLockInfo_def

lemma exProvider_simps [simp]:
  "GetVolumeInfo exProvider vid name w = ((volume w, None), w)"
  "IsControllerPublished exProvider vid node w = ((published w, None), w)"
  "IsNodePublished exProvider vid pub target w = ((mounted w, None), w)"
  by (simp_all add: exProvider_def)

lemma emptyBackend_simps [simp]:
  "volume emptyBackend = None"
  "published emptyBackend = None"
  "mounted emptyBackend = False"
  by (simp_all add: emptyBackend_def)

lemma vol1_Id [simp]: "VolumeInfo_Id vol1 = ''v1''"
  by (simp add: vol1_def)

theorem createVolume_decision_witness:
  "calls (snd (handle (exInterceptor exProvider False (emptyBackend\<lparr>volume := Some vol1\<rparr>))
       (CreateVolumeRequest ''alpha'' None) ''/csi.Controller/CreateVolume'' exHandler)) =
     [Call_GetVolumeInfo [] ''alpha'', Call_GetVolumeInfo ''v1'' []] \<and>
   map (\<lambda>t. (heldName t ''alpha'', heldID t ''v1''))
     (locksAtCall (snd (handle (exInterceptor exProvider False (emptyBackend\<lparr>volume := Some vol1\<rparr>))
       (CreateVolumeRequest ''alpha'' None) ''/csi.Controller/CreateVolume'' exHandler))) =
     [(True, False), (True, True)] \<and>
   \<not> locked (idLock (snd (handle (exInterceptor exProvider False (emptyBackend\<lparr>volume := Some vol1\<rparr>))
       (CreateVolumeRequest ''alpha'' None) ''/csi.Controller/CreateVolume'' exHandler)) ''v1'') \<and>
   \<not> locked (nameLock (snd (handle (exInterceptor exProvider False (emptyBackend\<lparr>volume := Some vol1\<rparr>))
       (CreateVolumeRequest ''alpha'' None) ''/csi.Controller/CreateVolume'' exHandler)) ''alpha'') \<and>
   fst (handle (exInterceptor exProvider False (emptyBackend\<lparr>volume := Some vol1\<rparr>))
       (CreateVolumeRequest ''alpha'' None) ''/csi.Controller/CreateVolume'' exHandler) =
     Return (Some (CreateVolumeResponse (Reply_Result vol1))) None \<and>
   calls (snd (handle (exInterceptor exProvider False emptyBackend)
       (CreateVolumeRequest ''alpha'' None) ''/csi.Controller/CreateVolume'' exHandler)) =
     [Call_GetVolumeInfo [] ''alpha'', Call_handler (CreateVolumeRequest ''alpha'' None)] \<and>
   map (\<lambda>t. heldName t ''alpha'')
     (locksAtCall (snd (handle (exInterceptor exProvider False emptyBackend)
       (CreateVolumeRequest ''alpha'' None) ''/csi.Controller/CreateVolume'' exHandler))) =
     [True, True] \<and>
   fst (handle (exInterceptor exProvider False emptyBackend)
       (CreateVolumeRequest ''alpha'' None) ''/csi.Controller/CreateVolume'' exHandler) =
     Return (Some (CreateVolumeResponse (Reply_Result vol1))) None"
  using
    createVolume_decision [of "exInterceptor exProvider False (emptyBackend\<lparr>volume := Some vol1\<rparr>)"
      "''alpha''" "''/csi.Controller/CreateVolume''" "Some vol1" "emptyBackend\<lparr>volume := Some vol1\<rparr>"
      "CreateVolumeRequest ''alpha'' None" None exHandler]
    createVolume_decision [of "exInterceptor exProvider False emptyBackend"
      "''alpha''" "''/csi.Controller/CreateVolume''" None emptyBackend
      "CreateVolumeRequest ''alpha'' None" None exHandler]
  by (simp add: fst_TryLock newVolLockInfo_def createVolume_delegated_def exHandler_def)

text \<open>
  Claim C4 says that a procedure leaving with a non-nil error marks its method in error
  on the lock record. \<open>createVolume\<close> does not: when the lookup by name fails, it returns
  \<open>nil, err\<close>, and the deferred function of the name lock evaluates
  \<open>res.(*csi.CreateVolumeResponse)\<close> on the nil \<open>res\<close> (line 328) and panics before line
  335 is reached. The method is not marked and the call does not return.
\<close>

theorem createVolume_lookup_error_panics:
  "fst (handle (exInterceptor failingProvider False emptyBackend)
         (CreateVolumeRequest ''alpha'' None) ''/csi.Controller/CreateVolume'' exHandler) = Panic \<and>
   calls (snd (handle (exInterceptor failingProvider False emptyBackend)
         (CreateVolumeRequest ''alpha'' None) ''/csi.Controller/CreateVolume'' exHandler)) =
     [Call_GetVolumeInfo [] ''alpha''] \<and>
   ''/csi.Controller/CreateVolume'' \<notin>
     methodInErr (nameLock (snd (handle (exInterceptor failingProvider False emptyBackend)
         (CreateVolumeRequest ''alpha'' None) ''/csi.Controller/CreateVolume'' exHandler)) ''alpha'')"
  by (simp add: create_defs exInterceptor_def failingProvider_def exProvider_def
      lockWithName_def nameLock_def setNameLock_def)

text \<open>
  Claim C2 says that a request whose method is marked in error is handed to the handler
  and the handler's result returned. \<open>createVolume\<close> calls the handler, and no provider,
  but when the handler fails with \<open>nil, err\<close> the deferred function of the name lock
  panics as above: the handler's result is not returned.
\<close>

theorem createVolume_bypass_panics:
  "''/csi.Controller/CreateVolume'' \<in>
     methodInErr (nameLock (setNameLock (exInterceptor exProvider False emptyBackend) ''alpha''
        \<lparr>locked = False, methodInErr = {''/csi.Controller/CreateVolume''}\<rparr>) ''alpha'') \<and>
   fst (handle (setNameLock (exInterceptor exProvider False emptyBackend) ''alpha''
                  \<lparr>locked = False, methodInErr = {''/csi.Controller/CreateVolume''}\<rparr>)
         (CreateVolumeRequest ''alpha'' None) ''/csi.Controller/CreateVolume'' failingHandler) = Panic \<and>
   calls (snd (handle (setNameLock (exInterceptor exProvider False emptyBackend) ''alpha''
                  \<lparr>locked = False, methodInErr = {''/csi.Controller/CreateVolume''}\<rparr>)
         (CreateVolumeRequest ''alpha'' None) ''/csi.Controller/CreateVolume'' failingHandler)) =
     [Call_handler (CreateVolumeRequest ''alpha'' None)]"
  by (simp add: create_defs exInterceptor_def failingHandler_def exProvider_def
      lockWithName_def nameLock_def setNameLock_def)

text \<open>
  Claim C5 says that a \<open>CreateVolume\<close> call returning an embedded
  \<open>OPERATION_PENDING_FOR_VOLUME\<close> error marks no lock record. The deferred function of the
  id lock (lines 380-387) lacks the exception that the one of the name lock makes (lines
  326-334): when the volume found by name is gone at the second lookup and the handler
  answers with that error, the method is marked in error on the id lock.
\<close>

theorem createVolume_pending_marks_id_lock:
  "''/csi.Controller/CreateVolume'' \<notin>
     methodInErr (idLock (exInterceptor vanishingProvider False (emptyBackend\<lparr>volume := Some vol1\<rparr>)) ''v1'') \<and>
   fst (handle (exInterceptor vanishingProvider False (emptyBackend\<lparr>volume := Some vol1\<rparr>))
         (CreateVolumeRequest ''alpha'' None) ''/csi.Controller/CreateVolume'' pendingHandler) =
     Return (Some (ErrCreateVolume OPERATION_PENDING_FOR_VOLUME [])) None \<and>
   ''/csi.Controller/CreateVolume'' \<in>
     methodInErr (idLock (snd (handle (exInterceptor vanishingProvider False (emptyBackend\<lparr>volume := Some vol1\<rparr>))
         (CreateVolumeRequest ''alpha'' None) ''/csi.Controller/CreateVolume'' pendingHandler)) ''v1'')"
  by (simp add: create_defs exInterceptor_def pendingHandler_def vanishingProvider_def exProvider_def
      lockWithName_def nameLock_def setNameLock_def lockWithID_def idLock_def setIDLock_def
      emptyBackend_def vol1_def)


subsection \<open>ControllerPublishVolume\<close>

lemma call_frames:
  "call_GetVolumeInfo i a b = (r1, i1) \<Longrightarrow>
     opts i1 = opts i \<and> provider i1 = provider i \<and> (\<forall>k. idLock i1 k = idLock i k) \<and>
     filter isHandlerCall (calls i1) = filter isHandlerCall (calls i)"
  "call_IsControllerPublished i a b = (r2, i2) \<Longrightarrow>
     opts i2 = opts i \<and> provider i2 = provider i \<and> (\<forall>k. idLock i2 k = idLock i k) \<and>
     filter isHandlerCall (calls i2) = filter isHandlerCall (calls i)"
  "call_handler h req i = (r3, i3) \<Longrightarrow>
     opts i3 = opts i \<and> provider i3 = provider i \<and> (\<forall>k. idLock i3 k = idLock i k) \<and>
     filter isHandlerCall (calls i3) = filter isHandlerCall (calls i) @ [Call_handler req]"
  by (auto simp: call_GetVolumeInfo_def call_IsControllerPublished_def call_handler_def
      idLock_def split: prod.splits)

lemma controllerPublishVolume_body_frame:
  assumes "controllerPublishVolume_body req fm h i = (r, i')"
  shows "opts i' = opts i \<and> provider i' = provider i \<and> (\<forall>k. idLock i' k = idLock i k) \<and>
         length (filter isHandlerCall (calls i')) \<le> length (filter isHandlerCall (calls i)) + 1"
  using assms
  by (auto simp: controllerPublishVolume_body_def checkVolumeExists_def
      split: if_splits prod.splits option.splits dest!: call_frames)


lemma withIDLock_state:
  "\<not> locked (idLock i vid) \<Longrightarrow> body (acquired i vid) = ((res, resErr), i2) \<Longrightarrow>
   deferMethodInErr fm resErr (ge res) (Unlock (idLock i2 vid)) = Some l \<Longrightarrow>
   withIDLock i vid fm p ge body =
     (False, (res, resErr), setIDLock (setIDLock i2 vid (Unlock (idLock i2 vid))) vid l)"
  by (simp add: withIDLock_def acquired_def TryLock_def Let_def)

lemma deferMethodInErr_success:
  "deferMethodInErr fm None (Some None) l = Some l' \<Longrightarrow>
   locked l' = locked l \<and> fm \<notin> methodInErr l'"
  by (auto simp: deferMethodInErr_def split: if_splits)

text \<open>
  Claim C8. Take two successive \<open>ControllerPublishVolume\<close> calls with the same arguments,
  the first returning a result with publish info \<open>m\<close> and a nil error, and let the
  provider reflect the state the first call produced: asked after it, \<open>GetVolumeInfo\<close>
  finds the volume (it is asked only when \<open>requireVolume\<close> is set) and
  \<open>IsControllerPublished\<close> reports \<open>m\<close>. Then the second call returns a result with the
  same publish info \<open>m\<close>, it does not call the handler, and the handler has been called
  at most once over the two calls.
\<close>

theorem publish_idempotent:
  assumes first: "handle i req fm h =
                    (Return (Some (ControllerPublishVolumeResponse (Reply_Result m))) None, i1)"
    and req: "req = ControllerPublishVolumeRequest vid node"
    and vol: "requireVolume (opts i) \<longrightarrow>
                (\<exists>v. fst (GetVolumeInfo (provider i) vid [] (world i1)) = (Some v, None))"
    and pub: "fst (IsControllerPublished (provider i) vid node
                 (if requireVolume (opts i) then snd (GetVolumeInfo (provider i) vid [] (world i1))
                  else world i1)) = (Some m, None)"
  shows "fst (handle i1 req fm h) =
           Return (Some (ControllerPublishVolumeResponse (Reply_Result m))) None \<and>
         filter isHandlerCall (calls (snd (handle i1 req fm h))) = filter isHandlerCall (calls i1) \<and>
         length (filter isHandlerCall (calls (snd (handle i1 req fm h)))) \<le>
           length (filter isHandlerCall (calls i)) + 1"
proof -
  let ?pend = "ErrControllerPublishVolume OPERATION_PENDING_FOR_VOLUME []"
  let ?ge = ControllerPublishVolumeResponse_GetError
  let ?body = "controllerPublishVolume_body req fm h"
  have hd: "\<And>j. handle j req fm h = finish (withIDLock j vid fm ?pend ?ge ?body)"
    using req by (simp add: handle_def controllerPublishVolume_def)
  have free: "\<not> locked (idLock i vid)"
  proof
    assume "locked (idLock i vid)"
    then show False
      using first withIDLock_held [of i vid fm ?pend ?ge ?body]
      by (simp add: hd finish_def ErrControllerPublishVolume_def)
  qed
  obtain res resErr i2 where b: "?body (acquired i vid) = ((res, resErr), i2)"
    by (metis prod.exhaust)
  have fr: "opts i2 = opts i \<and> provider i2 = provider i \<and> (\<forall>k. idLock i2 k = idLock (acquired i vid) k) \<and>
         length (filter isHandlerCall (calls i2)) \<le> length (filter isHandlerCall (calls i)) + 1"
    using controllerPublishVolume_body_frame [OF b] by simp
  obtain l where
    d: "deferMethodInErr fm resErr (?ge res) (Unlock (idLock i2 vid)) = Some l"
    and r: "res = Some (ControllerPublishVolumeResponse (Reply_Result m))" "resErr = None"
    and i1: "i1 = setIDLock (setIDLock i2 vid (Unlock (idLock i2 vid))) vid l"
    using first b free
    by (auto simp: hd finish_def withIDLock_def acquired_def TryLock_def Let_def
        split: option.splits if_splits)
  have l: "\<not> locked l \<and> fm \<notin> methodInErr l"
    using d r deferMethodInErr_success [of fm "Unlock (idLock i2 vid)" l]
    by (simp add: Unlock_def)
  have free1: "\<not> locked (idLock i1 vid)" using l i1 by simp
  have fresh1: "fm \<notin> methodInErr (idLock (acquired i1 vid) vid)" using l i1 by simp
  have o1: "opts (acquired i1 vid) = opts i" "provider (acquired i1 vid) = provider i"
    "world (acquired i1 vid) = world i1" "calls (acquired i1 vid) = calls i1"
    using fr i1 by simp_all
  have c1: "length (filter isHandlerCall (calls i1)) \<le> length (filter isHandlerCall (calls i)) + 1"
    using fr i1 by simp
  obtain g wg where g: "GetVolumeInfo (provider i) vid [] (world i1) = (g, wg)"
    by (metis prod.exhaust)
  obtain q wq where q: "IsControllerPublished (provider i) vid node
      (if requireVolume (opts i) then wg else world i1) = (q, wq)"
    by (metis prod.exhaust)
  have qv: "q = (Some m, None)" using pub g q by (cases "requireVolume (opts i)") simp_all
  have gv: "requireVolume (opts i) \<Longrightarrow> \<exists>v. g = (Some v, None)" using vol g by simp
  have b2: "fst (?body (acquired i1 vid)) =
              (Some (ControllerPublishVolumeResponse (Reply_Result m)), None) \<and>
            filter isHandlerCall (calls (snd (?body (acquired i1 vid)))) =
              filter isHandlerCall (calls i1)"
    using fresh1 o1 g q qv gv req
    by (auto simp: controllerPublishVolume_body_def checkVolumeExists_def
        call_GetVolumeInfo_def call_IsControllerPublished_def)
  obtain i3 where b3: "?body (acquired i1 vid) =
       ((Some (ControllerPublishVolumeResponse (Reply_Result m)), None), i3)"
    using b2 by (metis prod.collapse)
  have np: "\<not> fst (withIDLock i1 vid fm ?pend ?ge ?body)"
    using withIDLock_panicking [where body = ?body and i = i1 and vid = vid and fm = fm
        and p = ?pend and ge = ?ge, OF free1 b3]
    by (simp add: deferMethodInErr_def)
  show ?thesis
    using np b2 c1 withIDLock_result [OF free1, of fm ?pend ?ge ?body]
      withIDLock_calls [OF free1, of fm ?pend ?ge ?body]
    by (simp add: hd fst_finish snd_finish)
qed


lemma publish_first_call:
  "fst (handle (exInterceptor exProvider False (emptyBackend\<lparr>volume := Some vol1\<rparr>))
         (ControllerPublishVolumeRequest ''v1'' ''n1'')
         ''/csi.Controller/ControllerPublishVolume'' exHandler) =
     Return (Some (ControllerPublishVolumeResponse (Reply_Result [''device'' \<mapsto> ''/dev/mock'']))) None"
  "world (snd (handle (exInterceptor exProvider False (emptyBackend\<lparr>volume := Some vol1\<rparr>))
         (ControllerPublishVolumeRequest ''v1'' ''n1'')
         ''/csi.Controller/ControllerPublishVolume'' exHandler)) =
     emptyBackend\<lparr>volume := Some vol1, published := Some [''device'' \<mapsto> ''/dev/mock'']\<rparr>"
  "calls (snd (handle (exInterceptor exProvider False (emptyBackend\<lparr>volume := Some vol1\<rparr>))
         (ControllerPublishVolumeRequest ''v1'' ''n1'')
         ''/csi.Controller/ControllerPublishVolume'' exHandler)) =
     [Call_IsControllerPublished ''v1'' ''n1'',
      Call_handler (ControllerPublishVolumeRequest ''v1'' ''n1'')]"
  by (simp_all add: handle_def controllerPublishVolume_def controllerPublishVolume_body_def
      checkVolumeExists_def finish_def withIDLock_def TryLock_def Unlock_def Let_def
      call_IsControllerPublished_def call_handler_def noteCall_def deferMethodInErr_def exHandler_def
      newVolLockInfo_def)

theorem publish_idempotent_witness:
  "fst (handle (snd (handle (exInterceptor exProvider False (emptyBackend\<lparr>volume := Some vol1\<rparr>))
                   (ControllerPublishVolumeRequest ''v1'' ''n1'')
                   ''/csi.Controller/ControllerPublishVolume'' exHandler))
         (ControllerPublishVolumeRequest ''v1'' ''n1'')
         ''/csi.Controller/ControllerPublishVolume'' exHandler) =
     Return (Some (ControllerPublishVolumeResponse (Reply_Result [''device'' \<mapsto> ''/dev/mock'']))) None \<and>
   length (filter isHandlerCall
     (calls (snd (handle (snd (handle (exInterceptor exProvider False (emptyBackend\<lparr>volume := Some vol1\<rparr>))
                   (ControllerPublishVolumeRequest ''v1'' ''n1'')
                   ''/csi.Controller/ControllerPublishVolume'' exHandler))
         (ControllerPublishVolumeRequest ''v1'' ''n1'')
         ''/csi.Controller/ControllerPublishVolume'' exHandler)))) \<le> 1"
proof -
  let ?i = "exInterceptor exProvider False (emptyBackend\<lparr>volume := Some vol1\<rparr>)"
  let ?req = "ControllerPublishVolumeRequest ''v1'' ''n1''"
  let ?fm = "''/csi.Controller/ControllerPublishVolume''"
  let ?m = "[''device'' \<mapsto> ''/dev/mock'']"
  have f: "handle ?i ?req ?fm exHandler =
      (Return (Some (ControllerPublishVolumeResponse (Reply_Result ?m))) None,
       snd (handle ?i ?req ?fm exHandler))"
    by (simp add: prod_eq_iff publish_first_call(1))
  have v: "requireVolume (opts ?i) \<longrightarrow>
      (\<exists>v. fst (GetVolumeInfo (provider ?i) ''v1'' [] (world (snd (handle ?i ?req ?fm exHandler)))) =
             (Some v, None))"
    by simp
  have p: "fst (IsControllerPublished (provider ?i) ''v1'' ''n1''
                 (if requireVolume (opts ?i)
                  then snd (GetVolumeInfo (provider ?i) ''v1'' [] (world (snd (handle ?i ?req ?fm exHandler))))
                  else world (snd (handle ?i ?req ?fm exHandler)))) = (Some ?m, None)"
    by (simp add: publish_first_call(2))
  show ?thesis
    using publish_idempotent [OF f refl v p] by (simp add: publish_first_call(3))
qed


subsection \<open>The error mark in the procedures keyed by volume id\<close>

lemma call_IsNodePublished_frame:
  "call_IsNodePublished i a b c = (r, i') \<Longrightarrow>
     opts i' = opts i \<and> provider i' = provider i \<and> (\<forall>k. idLock i' k = idLock i k) \<and>
     filter isHandlerCall (calls i') = filter isHandlerCall (calls i)"
  by (auto simp: call_IsNodePublished_def idLock_def split: prod.splits)

lemma body_frames:
  "controllerUnpublishVolume_body req fm h i = (r1, i1) \<Longrightarrow> idLock i1 k = idLock i k"
  "deleteVolume_body req fm h i = (r2, i2) \<Longrightarrow> idLock i2 k = idLock i k"
  "nodePublishVolume_body req fm h i = (r3, i3) \<Longrightarrow> idLock i3 k = idLock i k"
  "nodeUnpublishVolume_body req fm h i = (r4, i4) \<Longrightarrow> idLock i4 k = idLock i k"
  by (auto simp: controllerUnpublishVolume_body_def deleteVolume_body_def nodePublishVolume_body_def
      nodeUnpublishVolume_body_def checkVolumeExists_def deleteVolume_check_def
      deleteVolume_decide_def
      split: if_splits prod.splits option.splits
      dest!: call_frames call_IsNodePublished_frame)

lemma withIDLock_marks:
  assumes free: "\<not> locked (idLock i vid)"
    and body: "body (acquired i vid) = ((res, resErr), i2)"
    and frame: "idLock i2 vid = idLock (acquired i vid) vid"
    and ret: "withIDLock i vid fm p ge body = (False, r, i')"
  shows "r = (res, resErr) \<and> \<not> locked (idLock i' vid) \<and>
         (resErr = None \<longrightarrow> ge res \<noteq> None) \<and>
         methodInErr (idLock i' vid) =
           (if resErr \<noteq> None \<or> (\<exists>e. ge res = Some (Some e))
            then insert fm (methodInErr (idLock i vid))
            else methodInErr (idLock i vid) - {fm})"
  using assms
  by (auto simp: withIDLock_def acquired_def TryLock_def Unlock_def Let_def deferMethodInErr_def
      split: option.splits if_splits)


lemma finish_Return:
  "finish r = (Return res resErr, i') \<Longrightarrow> r = (False, (res, resErr), i')"
  by (cases r) (auto simp: finish_def split: if_splits)

lemma GetError_replyError:
  "ControllerPublishVolumeResponse_GetError res \<noteq> None \<Longrightarrow>
     (\<exists>e. ControllerPublishVolumeResponse_GetError res = Some (Some e)) =
     (\<exists>resp e. res = Some resp \<and> replyError resp = Some e)"
  "ControllerUnpublishVolumeResponse_GetError res \<noteq> None \<Longrightarrow>
     (\<exists>e. ControllerUnpublishVolumeResponse_GetError res = Some (Some e)) =
     (\<exists>resp e. res = Some resp \<and> replyError resp = Some e)"
  "DeleteVolumeResponse_GetError res \<noteq> None \<Longrightarrow>
     (\<exists>e. DeleteVolumeResponse_GetError res = Some (Some e)) =
     (\<exists>resp e. res = Some resp \<and> replyError resp = Some e)"
  "NodePublishVolumeResponse_GetError res \<noteq> None \<Longrightarrow>
     (\<exists>e. NodePublishVolumeResponse_GetError res = Some (Some e)) =
     (\<exists>resp e. res = Some resp \<and> replyError resp = Some e)"
  "NodeUnpublishVolumeResponse_GetError res \<noteq> None \<Longrightarrow>
     (\<exists>e. NodeUnpublishVolumeResponse_GetError res = Some (Some e)) =
     (\<exists>resp e. res = Some resp \<and> replyError resp = Some e)"
  by (cases res; (simp; cases "the res"; simp))+

lemma withIDLock_marks_reply:
  assumes free: "\<not> locked (idLock i vid)"
    and frame: "\<And>r j. body (acquired i vid) = (r, j) \<Longrightarrow> idLock j vid = idLock (acquired i vid) vid"
    and ge: "ge res \<noteq> None \<Longrightarrow>
               (\<exists>e. ge res = Some (Some e)) = (\<exists>resp e. res = Some resp \<and> replyError resp = Some e)"
    and ret: "finish (withIDLock i vid fm p ge body) = (Return res resErr, i')"
  shows "\<not> locked (idLock i' vid) \<and>
         methodInErr (idLock i' vid) =
           (if resErr \<noteq> None \<or> (\<exists>resp e. res = Some resp \<and> replyError resp = Some e)
            then insert fm (methodInErr (idLock i vid))
            else methodInErr (idLock i vid) - {fm})"
proof -
  obtain res' resErr' i2 where b: "body (acquired i vid) = ((res', resErr'), i2)"
    by (metis prod.exhaust)
  have w: "withIDLock i vid fm p ge body = (False, (res, resErr), i')"
    using ret by (rule finish_Return)
  note m = withIDLock_marks [OF free b frame [OF b] w]
  then have eq: "res' = res" "resErr' = resErr" by simp_all
  show ?thesis
  proof (cases "resErr = None")
    case True
    then have "ge res \<noteq> None" using m eq by simp
    then show ?thesis using m eq ge True by simp
  next
    case False
    then show ?thesis using m eq by simp
  qed
qed

text \<open>
  The five procedures keyed by the volume id do what claim C4 says: a call that took the
  lock and returns leaves the lock free, with the method marked in error when it returns
  an error or a reply with an embedded error, and unmarked otherwise.
\<close>

lemma method_in_error_updated:
  assumes free: "\<not> locked (idLock i vid)"
    and five: "req = ControllerPublishVolumeRequest vid node \<or>
               req = ControllerUnpublishVolumeRequest vid node \<or>
               req = DeleteVolumeRequest vid \<or>
               req = NodePublishVolumeRequest vid pub target \<or>
               req = NodeUnpublishVolumeRequest vid target"
    and ret: "handle i req fm h = (Return res resErr, i')"
  shows "\<not> locked (idLock i' vid) \<and>
         methodInErr (idLock i' vid) =
           (if resErr \<noteq> None \<or> (\<exists>resp e. res = Some resp \<and> replyError resp = Some e)
            then insert fm (methodInErr (idLock i vid))
            else methodInErr (idLock i vid) - {fm})"
  using five
proof (elim disjE)
  assume r: "req = ControllerPublishVolumeRequest vid node"
  show ?thesis
    using ret r
    by (intro withIDLock_marks_reply [OF free _ GetError_replyError(1)])
       (auto simp: handle_def controllerPublishVolume_def dest: controllerPublishVolume_body_frame)
next
  assume r: "req = ControllerUnpublishVolumeRequest vid node"
  show ?thesis
    using ret r
    by (intro withIDLock_marks_reply [OF free _ GetError_replyError(2)])
       (auto simp: handle_def controllerUnpublishVolume_def dest: body_frames)
next
  assume r: "req = DeleteVolumeRequest vid"
  show ?thesis
    using ret r
    by (intro withIDLock_marks_reply [OF free _ GetError_replyError(3)])
       (auto simp: handle_def deleteVolume_def dest: body_frames)
next
  assume r: "req = NodePublishVolumeRequest vid pub target"
  show ?thesis
    using ret r
    by (intro withIDLock_marks_reply [OF free _ GetError_replyError(4)])
       (auto simp: handle_def nodePublishVolume_def dest: body_frames)
next
  assume r: "req = NodeUnpublishVolumeRequest vid target"
  show ?thesis
    using ret r
    by (intro withIDLock_marks_reply [OF free _ GetError_replyError(5)])
       (auto simp: handle_def nodeUnpublishVolume_def dest: body_frames)
qed


text \<open>
  And they do what claim C2 says: with the method marked in error the only call is the
  one to the handler, whose result is returned (a panic is left only for a handler that
  returns a nil error with a reply of another type).
\<close>

lemma bypass_delegates:
  assumes free: "\<not> locked (idLock i vid)"
    and marked: "fm \<in> methodInErr (idLock i vid)"
    and five: "req = ControllerPublishVolumeRequest vid node \<or>
               req = ControllerUnpublishVolumeRequest vid node \<or>
               req = DeleteVolumeRequest vid \<or>
               req = NodePublishVolumeRequest vid pub target \<or>
               req = NodeUnpublishVolumeRequest vid target"
  shows "calls (snd (handle i req fm h)) = calls i @ [Call_handler req] \<and>
         (fst (handle i req fm h) = Panic \<or>
          fst (handle i req fm h) = Return (fst (fst (h req (world i)))) (snd (fst (h req (world i)))))"
  using five marked
  by (elim disjE)
     (simp_all add: handle_def controllerPublishVolume_def controllerUnpublishVolume_def
        deleteVolume_def nodePublishVolume_def nodeUnpublishVolume_def
        controllerPublishVolume_body_def controllerUnpublishVolume_body_def deleteVolume_body_def
        nodePublishVolume_body_def nodeUnpublishVolume_body_def
        snd_finish fst_finish withIDLock_calls [OF free] withIDLock_result [OF free]
        call_handler_eq)


end
